theory Spec2Isabelle
  imports Main "HOL-Library.Word" "HOL-Library.Char_ord" "HOL-Library.List_Lexorder"
    "HOL-Library.AList"
begin

section \<open>Core runtime kernels (lib/core\_runtime/kernels.cc)\<close>

subsection \<open>Data model\<close>

text \<open>
  A failed \<^verbatim>\<open>assert\<close> and an executed \<^verbatim>\<open>llvm_unreachable\<close> end the program; they are
  values of the type \<open>abort\<close>, kept apart from the errors the kernels report
  (\<^verbatim>\<open>llvm::Expected\<close>, modelled as \<open>string + 'a\<close> with the message on the left).
\<close>

datatype abort = AssertionFailed string | UnreachableExecuted string

text \<open>
  The dtype kinds. \<^verbatim>\<open>tfrt/dtype/dtype.def\<close> is not part of the sources at hand, so the kinds
  are grouped the way \<^verbatim>\<open>GetDHTPredicateValue\<close> distinguishes them: \<open>BOOL\<close>, the kinds
  enumerated by \<^verbatim>\<open>DTYPE_INT\<close> (tagged by a number), \<open>String\<close>, and every other kind.
\<close>

datatype DType = BOOL | IntKind nat | String | OtherKind nat

record TensorMetadata =
  dtype :: DType
  shape :: "int list"

text \<open>The element buffer of a dense host tensor, read through \<^verbatim>\<open>DHTArrayView<T>\<close>.\<close>

datatype dht_data = BoolData "bool list" | IntData nat "int list" | OtherData nat "nat list"

record DenseHostTensor =
  dht_shape :: "int list"
  dht_data :: dht_data

record StringHostTensor =
  sht_metadata :: TensorMetadata
  strings :: "string list"

text \<open>A tensor is a dense host tensor, a string host tensor, or a tensor of another
  tensor type, of which only the type name is used.\<close>

datatype Tensor = DenseHT DenseHostTensor | StringHT StringHostTensor | OtherTensor string

record Device =
  device_name :: string
  device_type :: string



text \<open>An async value as the kernels observe it: not yet available, available with a
  payload, or an error with its message.\<close>

datatype 'a AsyncValue = Unavailable | Concrete 'a | Error string

datatype Value = VChain | VTensor Tensor | VTensorHandle TensorHandle | VOther nat
  and TensorHandle =
    TensorHandle (th_device: Device) (th_metadata: TensorMetadata) (th_tensor: "Value AsyncValue")







subsection \<open>The tensor predicate\<close>

definition GetDHTPredicateValue :: "DenseHostTensor \<Rightarrow> abort + bool" where
  "GetDHTPredicateValue dht =
     (case dht_data dht of
        OtherData k raw \<Rightarrow> Inl (UnreachableExecuted ''dtype not supported'')
      | BoolData dht_view \<Rightarrow>
          if length dht_view \<noteq> 1 then Inl (AssertionFailed ''dht_view.NumElements() == 1'')
          else Inr (dht_view ! 0)
      | IntData k dht_view \<Rightarrow>
          if length dht_view \<noteq> 1 then Inl (AssertionFailed ''dht_view.NumElements() == 1'')
          else Inr (dht_view ! 0 \<noteq> 0))"

definition GetTensorPredicateValue :: "Tensor \<Rightarrow> abort + (string + bool)" where
  "GetTensorPredicateValue tensor =
     (case tensor of
        DenseHT dht \<Rightarrow>
          (case GetDHTPredicateValue dht of Inl a \<Rightarrow> Inl a | Inr b \<Rightarrow> Inr (Inr b))
      | StringHT sht \<Rightarrow> Inr (Inr (strings sht \<noteq> [] \<and> strings sht ! 0 \<noteq> []))
      | OtherTensor name \<Rightarrow>
          Inr (Inl (''tensor predicate does not support type '' @ name)))"

subsection \<open>corert.const\_string\_tensor\<close>




subsection \<open>corert.while\<close>






















section \<open>The MLIR to BEF converter (lib/bef\_converter/mlir\_to\_bef/mlir\_to\_bef.cc)\<close>

subsection \<open>The IR\<close>

text \<open>
  An MLIR type is uniqued: two types are the same object exactly when they are
  structurally identical. A type carries its printed form; the constructor tells the
  kinds apart that the converter asks for with \<^verbatim>\<open>dyn_cast\<close>.
\<close>

datatype MType = IntegerType string | FloatType string
  | FunctionType "MType list" "MType list"
  | OtherType string

fun isa_FunctionType :: "MType \<Rightarrow> bool" where
  "isa_FunctionType (FunctionType ins outs) = True"
| "isa_FunctionType t = False"

fun join_comma :: "string list \<Rightarrow> string" where
  "join_comma [] = []"
| "join_comma [s] = s"
| "join_comma (s # ss) = s @ '', '' @ join_comma ss"

fun print_type :: "MType \<Rightarrow> string" where
  "print_type (IntegerType s) = s"
| "print_type (FloatType s) = s"
| "print_type (OtherType s) = s"
| "print_type (FunctionType ins outs) =
     ''('' @ join_comma (map print_type ins) @ '') -> '' @
     (case outs of
        [t] \<Rightarrow> if isa_FunctionType t then ''('' @ join_comma (map print_type outs) @ '')''
               else join_comma (map print_type outs)
      | _ \<Rightarrow> ''('' @ join_comma (map print_type outs) @ '')'')"

datatype Location = UnknownLoc | FileLineColLoc string nat nat | NameLoc string Location
  | CallSiteLoc (getCallee: Location) (getCaller: Location) | FusedLoc "Location list"

text \<open>Attributes. \<open>SymbolRefAttr root nested\<close> is a flat symbol reference when \<open>nested\<close>
  is empty. \<open>OtherAttr\<close> stands for the attribute kinds the converter never inspects
  (dense elements, shapes, opaque attributes), numbered to tell them apart.\<close>

datatype Attribute = UnitAttr | IntegerAttr MType int | FloatAttr MType int
  | StringAttr string | TypeAttr MType | SymbolRefAttr string "string list"
  | ArrayAttr "Attribute list" | OtherAttr nat

fun attr_getType :: "Attribute \<Rightarrow> MType" where
  "attr_getType (IntegerAttr t v) = t"
| "attr_getType (FloatAttr t v) = t"
| "attr_getType a = OtherType ''none''"

text \<open>An SSA value is a block argument or an operation result. Operations and regions
  are identified by their address (a number), as the converter keys its tables by
  \<^verbatim>\<open>mlir::Operation*\<close> and \<^verbatim>\<open>mlir::Region*\<close>; a region knows the address of the
  operation it belongs to (\<^verbatim>\<open>getParentOp\<close>).\<close>

datatype MValue = BlockArgument (arg_region: nat) (arg_index: nat) (arg_type: MType)
  | OpResult (res_op: nat) (res_index: nat) (res_type: MType)

fun value_getType :: "MValue \<Rightarrow> MType" where
  "value_getType (BlockArgument r i t) = t"
| "value_getType (OpResult p i t) = t"

fun isa_BlockArgument :: "MValue \<Rightarrow> bool" where
  "isa_BlockArgument (BlockArgument r i t) = True"
| "isa_BlockArgument (OpResult p i t) = False"

datatype Operation = Operation (op_ptr: nat) (op_name: string) (op_loc: Location)
    (op_operands: "MValue list") (op_result_types: "MType list")
    (op_attrs: "(string \<times> Attribute) list") (op_regions: "Region list")
  and Region = Region (region_ptr: nat) (region_parent_op: nat) (region_loc: Location)
    (region_blocks: "Block list")
  and Block = Block (block_arg_types: "MType list") (block_ops: "Operation list")

definition getResults :: "Operation \<Rightarrow> MValue list" where
  "getResults op = map (\<lambda>i. OpResult (op_ptr op) i (op_result_types op ! i))
                      [0..<length (op_result_types op)]"

definition getArguments :: "nat \<Rightarrow> Block \<Rightarrow> MValue list" where
  "getArguments rptr block = map (\<lambda>i. BlockArgument rptr i (block_arg_types block ! i))
                      [0..<length (block_arg_types block)]"

definition getAttr :: "Operation \<Rightarrow> string \<Rightarrow> Attribute option" where
  "getAttr op name = map_of (op_attrs op) name"

text \<open>The "tfrt.return" kernel gets special case handling in BEF files.\<close>

definition IsReturn :: "Operation \<Rightarrow> bool" where
  "IsReturn op = (op_name op = ''tfrt.return'')"

definition isa_FuncOp :: "Operation \<Rightarrow> bool" where
  "isa_FuncOp op = (op_name op = ''func'')"

definition IsNativeFunc :: "Operation \<Rightarrow> bool" where
  "IsNativeFunc op = (getAttr op ''tfrt.native'' \<noteq> None)"

definition IsSyncFunc :: "Operation \<Rightarrow> bool" where
  "IsSyncFunc op = (getAttr op ''tfrt.sync'' \<noteq> None)"

text \<open>The accessors of a function operation: its symbol name, its function type, its
  body (the only region) and whether it has no body.\<close>

definition fn_getName :: "Operation \<Rightarrow> string" where
  "fn_getName op = (case getAttr op ''sym_name'' of Some (StringAttr s) \<Rightarrow> s | _ \<Rightarrow> [])"

definition fn_getType :: "Operation \<Rightarrow> MType" where
  "fn_getType op = (case getAttr op ''type'' of Some (TypeAttr t) \<Rightarrow> t
                    | _ \<Rightarrow> FunctionType [] [])"

definition fn_getBody :: "Operation \<Rightarrow> Region" where
  "fn_getBody op = (case op_regions op of r # rs \<Rightarrow> r | [] \<Rightarrow> Region 0 (op_ptr op) UnknownLoc [])"

definition fn_isExternal :: "Operation \<Rightarrow> bool" where
  "fn_isExternal op = (region_blocks (fn_getBody op) = [])"

subsection \<open>The walk\<close>

text \<open>
  \<^verbatim>\<open>module.walk\<close> calls the callback on every operation nested in the module and on the
  module itself, each operation after the operations nested in it. An entry of the
  walk keeps what the callback asks the operation for: its parent region and whether
  it is the last operation of its block.
\<close>

record WalkItem =
  item_op :: Operation
  item_parent :: "nat option"
  item_is_back :: bool

fun walk_op :: "nat option \<Rightarrow> bool \<Rightarrow> Operation \<Rightarrow> WalkItem list"
  and walk_region :: "Region \<Rightarrow> WalkItem list"
  and walk_block :: "nat \<Rightarrow> Block \<Rightarrow> WalkItem list"
  and walk_ops :: "nat \<Rightarrow> Operation list \<Rightarrow> WalkItem list" where
  "walk_op parent is_back (Operation p n l operands rts attrs regions) =
     concat (map walk_region regions) @
     [\<lparr>item_op = Operation p n l operands rts attrs regions, item_parent = parent,
       item_is_back = is_back\<rparr>]"
| "walk_region (Region rp parent l blocks) = concat (map (walk_block rp) blocks)"
| "walk_block rp (Block args ops) = walk_ops rp ops"
| "walk_ops rp [] = []"
| "walk_ops rp (op # ops) = walk_op (Some rp) (ops = []) op @ walk_ops rp ops"

definition module_walk :: "Operation \<Rightarrow> WalkItem list" where
  "module_walk module = walk_op None True module"

text \<open>\<^verbatim>\<open>Value::getParentRegion\<close>: the region of the block owning an argument, or the
  parent region of the operation defining a result (looked up among the walked
  operations).\<close>

definition op_parent_region :: "WalkItem list \<Rightarrow> nat \<Rightarrow> nat option" where
  "op_parent_region items p =
     (case find (\<lambda>it. op_ptr (item_op it) = p) items of
        Some it \<Rightarrow> item_parent it | None \<Rightarrow> None)"

fun value_getParentRegion :: "WalkItem list \<Rightarrow> MValue \<Rightarrow> nat option" where
  "value_getParentRegion items (BlockArgument r i t) = Some r"
| "value_getParentRegion items (OpResult p i t) = op_parent_region items p"

subsection \<open>The byte emitter\<close>

text \<open>
  Modelled from the spec: the class \<^verbatim>\<open>BefEmitter\<close> (tfrt/bef\_converter/bef\_emitter.h) is
  not among the sources. The spec gives: an append-only byte buffer and a required
  alignment (the maximum of the recorded alignments); \<^verbatim>\<open>emit_fixed32\<close> little-endian;
  \<^verbatim>\<open>emit_vbr\<close> with 7 bits per byte, the most significant bit as continuation flag and
  the highest group first; \<^verbatim>\<open>emit_alignment(n)\<close> padding with zero bytes up to a
  multiple of \<open>n\<close>. The assertions of \<^verbatim>\<open>EmitKernel\<close> show that \<^verbatim>\<open>EmitInt4\<close> records the
  alignment 4.
\<close>

type_synonym byte = "8 word"

record BefEmitter =
  result_bytes :: "byte list"
  required_alignment :: nat

definition new_emitter :: BefEmitter where
  "new_emitter = \<lparr>result_bytes = [], required_alignment = 1\<rparr>"

definition emitter_size :: "BefEmitter \<Rightarrow> nat" where
  "emitter_size e = length (result_bytes e)"

definition EmitByte :: "byte \<Rightarrow> BefEmitter \<Rightarrow> BefEmitter" where
  "EmitByte b e = e\<lparr>result_bytes := result_bytes e @ [b]\<rparr>"

definition EmitBytes :: "byte list \<Rightarrow> BefEmitter \<Rightarrow> BefEmitter" where
  "EmitBytes bs e = e\<lparr>result_bytes := result_bytes e @ bs\<rparr>"

definition EmitAlignment :: "nat \<Rightarrow> BefEmitter \<Rightarrow> BefEmitter" where
  "EmitAlignment n e =
     (if n < 2 then e
      else e\<lparr>result_bytes := result_bytes e @ replicate ((n - length (result_bytes e) mod n) mod n) 0,
             required_alignment := max (required_alignment e) n\<rparr>)"

function vbr_bytes :: "bool \<Rightarrow> nat \<Rightarrow> byte list" where
  "vbr_bytes is_high_part v =
     (if v div 128 \<noteq> 0 then vbr_bytes True (v div 128) else []) @
     [of_nat (v mod 128 + (if is_high_part then 128 else 0))]"
  by pat_completeness auto
termination
  by (relation "measure (\<lambda>(h, v). v)") auto

declare vbr_bytes.simps [simp del]

definition EmitVbrInt :: "nat \<Rightarrow> BefEmitter \<Rightarrow> BefEmitter" where
  "EmitVbrInt v e = EmitBytes (vbr_bytes False v) e"

definition GetSizeOfVbrInt :: "nat \<Rightarrow> nat" where
  "GetSizeOfVbrInt v = length (vbr_bytes False v)"

definition int4_bytes :: "32 word \<Rightarrow> byte list" where
  "int4_bytes v = [ucast v, ucast (drop_bit 8 v), ucast (drop_bit 16 v), ucast (drop_bit 24 v)]"

definition EmitInt4 :: "32 word \<Rightarrow> BefEmitter \<Rightarrow> BefEmitter" where
  "EmitInt4 v e = EmitBytes (int4_bytes v) (EmitAlignment 4 e)"

definition EmitEmitter :: "BefEmitter \<Rightarrow> BefEmitter \<Rightarrow> BefEmitter" where
  "EmitEmitter inner e = EmitBytes (result_bytes inner) (EmitAlignment (required_alignment inner) e)"

definition string_bytes :: "string \<Rightarrow> byte list" where
  "string_bytes s = map (\<lambda>c. of_nat (of_char c)) s"

text \<open>\<^verbatim>\<open>BEFFileEmitter::EmitSection\<close>. The section identifiers are taken as numbers.\<close>

definition EmitSection :: "byte \<Rightarrow> byte list \<Rightarrow> nat \<Rightarrow> BefEmitter \<Rightarrow> BefEmitter" where
  "EmitSection section_id section_data alignment e0 =
     (let e = EmitByte section_id e0;
          shifted_section_length = 2 * length section_data
      in if alignment > 1 \<and>
            (emitter_size e + GetSizeOfVbrInt shifted_section_length) mod alignment \<noteq> 0
         then EmitBytes section_data
                (EmitAlignment alignment
                  (EmitByte (of_nat alignment) (EmitVbrInt (shifted_section_length + 1) e)))
         else EmitBytes section_data (EmitVbrInt shifted_section_length e))"

definition EmitSectionOf :: "byte \<Rightarrow> BefEmitter \<Rightarrow> BefEmitter \<Rightarrow> BefEmitter" where
  "EmitSectionOf section_id emitter e =
     EmitSection section_id (result_bytes emitter) (required_alignment emitter) e"


subsection \<open>The entity table\<close>

datatype LogicalResult = Success | Failure

datatype FunctionKind = kBEFFunction | kNativeFunction | kSyncBEFFunction

datatype SpecialAttribute = kUnknown | kNonStrict | kHasDebugInfo

datatype BEFSectionID = kLocationFilenames | kLocationPositions | kDebugInfo | kStrings
  | kAttributes | kKernels | kTypes | kFunctionIndex | kFunctions
  | kAttributeTypes | kAttributeNames | kRegisterTypes

text \<open>
  Modelled from the spec: \<^verbatim>\<open>BefAttrEmitter::ClassifyAttribute\<close> and the values of the
  enumeration \<^verbatim>\<open>SpecialAttribute\<close> are not among the sources. The spec names the
  non-strict marker \<^verbatim>\<open>bef.nonstrict\<close> as the known special attribute and gives the
  special-flag bits \<^verbatim>\<open>0x1 = non_strict\<close>, \<^verbatim>\<open>0x2 = has_debug_info\<close>.
\<close>

definition ClassifyAttribute :: "string \<Rightarrow> SpecialAttribute" where
  "ClassifyAttribute name = (if name = ''bef.nonstrict'' then kNonStrict else kUnknown)"

fun SpecialAttribute_bits :: "SpecialAttribute \<Rightarrow> 32 word" where
  "SpecialAttribute_bits kUnknown = 0"
| "SpecialAttribute_bits kNonStrict = 1"
| "SpecialAttribute_bits kHasDebugInfo = 2"

text \<open>
  What the converter takes from its collaborators: the compiled-module test of
  \<^verbatim>\<open>BefCompilationUnits\<close>, the symbol lookup, the attribute emitter, the stream
  analysis, the numbers of the section identifiers and function kinds
  (tfrt/support/bef\_encoding.h), and the order in which a \<^verbatim>\<open>DenseMap\<close> keyed by
  operation addresses hands out its keys (a function of the addresses and of the order
  of insertion).
\<close>

record Env =
  IsInCompiledModule :: "Operation \<Rightarrow> bool"
  SymbolInCompiledModule :: "Attribute \<Rightarrow> bool"
  IsSupportedAttribute :: "Attribute \<Rightarrow> bool"
  GetBefAttributeType :: "Attribute \<Rightarrow> nat"
  IsSymbolRefAttribute :: "nat \<Rightarrow> bool"
  EmitAttribute :: "BefEmitter \<Rightarrow> nat \<Rightarrow> Attribute \<Rightarrow> nat \<times> BefEmitter"
  EmitSymbolRefAttribute :: "BefEmitter \<Rightarrow> Attribute \<Rightarrow> nat \<times> BefEmitter"
  GetRootStream :: "Block \<Rightarrow> nat"
  GetStream :: "Block \<Rightarrow> Operation \<Rightarrow> nat"
  DenseMapOrder :: "nat list \<Rightarrow> nat list"
  SectionIdByte :: "BEFSectionID \<Rightarrow> byte"
  FunctionKindByte :: "FunctionKind \<Rightarrow> byte"

record FunctionEntry =
  fe_name :: string
  fe_type :: MType
  fe_kind :: FunctionKind
  fe_region :: "Region option"

definition IsNative :: "FunctionEntry \<Rightarrow> bool" where
  "IsNative f = (fe_kind f = kNativeFunction)"

fun type_inputs :: "MType \<Rightarrow> MType list" where
  "type_inputs (FunctionType ins outs) = ins"
| "type_inputs t = []"

fun type_results :: "MType \<Rightarrow> MType list" where
  "type_results (FunctionType ins outs) = outs"
| "type_results t = []"

text \<open>The maps of the table are association lists in insertion order: \<open>map_insert\<close> is
  \<^verbatim>\<open>insert\<close>/\<^verbatim>\<open>try_emplace\<close> (an existing key keeps its value), \<open>AList.update\<close> is the
  assignment \<^verbatim>\<open>m[k] = v\<close>.\<close>

definition map_insert :: "'k \<Rightarrow> 'v \<Rightarrow> ('k \<times> 'v) list \<Rightarrow> ('k \<times> 'v) list \<times> bool" where
  "map_insert k v m = (if map_of m k = None then (m @ [(k, v)], True) else (m, False))"

type_synonym LocationTuple = "nat \<times> nat \<times> nat"

record EntityTable =
  attributes :: "Attribute list"
  kernels :: "string list"
  kernel_ids :: "(string \<times> nat) list"
  functions_vec :: "FunctionEntry list"
  region_function_ids :: "(nat \<times> nat) list"
  named_function_ids :: "(string \<times> nat) list"
  types :: "MType list"
  type_ids :: "(MType \<times> nat) list"
  strings_pool :: "string list"
  location_filenames :: "string list"
  location_filenames_index :: "(string \<times> nat) list"
  location_positions :: "(nat \<times> LocationTuple) list"
  debug_info :: "(nat \<times> string) list"

definition empty_table :: EntityTable where
  "empty_table = \<lparr>attributes = [], kernels = [], kernel_ids = [], functions_vec = [],
     region_function_ids = [], named_function_ids = [], types = [], type_ids = [],
     strings_pool = [], location_filenames = [], location_filenames_index = [],
     location_positions = [], debug_info = []\<rparr>"

text \<open>\<^verbatim>\<open>strings[string] = 0\<close>: the pool is a set of keys (it is sorted before it is
  emitted, so the order kept here is never seen).\<close>

definition AddString :: "string \<Rightarrow> EntityTable \<Rightarrow> EntityTable" where
  "AddString str e =
     (if str \<in> set (strings_pool e) then e else e\<lparr>strings_pool := strings_pool e @ [str]\<rparr>)"

text \<open>Add a type to our table. Ignore the type if we've seen it before; if it is new,
  remember the type name as a string.\<close>

definition AddType :: "MType \<Rightarrow> EntityTable \<Rightarrow> EntityTable" where
  "AddType type e =
     (case map_insert type (length (types e)) (type_ids e) of
        (ids, False) \<Rightarrow> e
      | (ids, True) \<Rightarrow> AddString (print_type type) (e\<lparr>type_ids := ids, types := types e @ [type]\<rparr>))"

definition GetTypeIndex :: "EntityTable \<Rightarrow> MType \<Rightarrow> abort + nat" where
  "GetTypeIndex e type =
     (case map_of (type_ids e) type of
        None \<Rightarrow> Inl (AssertionFailed ''unregistered type'') | Some i \<Rightarrow> Inr i)"

definition AddNativeFunction :: "Operation \<Rightarrow> EntityTable \<Rightarrow> EntityTable" where
  "AddNativeFunction op e0 =
     (let function_type = fn_getType op;
          e1 = fold AddType (type_inputs function_type) e0;
          e2 = fold AddType (type_results function_type) e1;
          name = fn_getName op;
          e3 = AddString name e2
      in e3\<lparr>named_function_ids := AList.update name (length (functions_vec e3)) (named_function_ids e3),
            functions_vec := functions_vec e3 @
              [\<lparr>fe_name = name, fe_type = function_type, fe_kind = kNativeFunction,
                fe_region = None\<rparr>]\<rparr>)"

text \<open>\<^verbatim>\<open>GetRegionFunctionType\<close>: the argument types of the first block and the types of the
  operands of its last operation, which has to be the return.\<close>

definition GetRegionFunctionType :: "Region \<Rightarrow> abort + MType" where
  "GetRegionFunctionType region =
     (case region_blocks region of
        [] \<Rightarrow> Inl (AssertionFailed ''region->front()'')
      | block # bs \<Rightarrow>
          if block_ops block = [] then Inl (AssertionFailed ''block.back()'')
          else let last_op = last (block_ops block) in
            if \<not> IsReturn last_op then Inl (AssertionFailed ''IsReturn(&last_op)'')
            else Inr (FunctionType (block_arg_types block)
                        (map value_getType (op_operands last_op))))"

text \<open>The state of the first pass: the table, the result so far, the function
  references to check at the end, the diagnostics emitted, and whether an assertion
  ended the program.\<close>

record CollectState =
  table :: EntityTable
  cresult :: LogicalResult
  fn_attrs :: "(Attribute \<times> Location) list"
  diags :: "string list"
  aborted :: "abort option"

definition emitError :: "string \<Rightarrow> CollectState \<Rightarrow> CollectState" where
  "emitError msg st = st\<lparr>diags := diags st @ [msg]\<rparr>"

definition on_table :: "(EntityTable \<Rightarrow> EntityTable) \<Rightarrow> CollectState \<Rightarrow> CollectState" where
  "on_table f st = st\<lparr>table := f (table st)\<rparr>"

text \<open>\<^verbatim>\<open>AddFunction\<close>; the boolean tells whether it succeeded.\<close>

definition AddFunction :: "Region \<Rightarrow> string \<Rightarrow> FunctionKind \<Rightarrow> CollectState \<Rightarrow> CollectState \<times> bool" where
  "AddFunction region name func_kind st =
     (if length (region_blocks region) \<noteq> 1 then
        (emitError ''multi-block regions cannot be emitted to BEF files'' st, False)
      else
        let e1 = fold AddType (block_arg_types (hd (region_blocks region))) (table st);
            e2 = AddString name e1;
            e3 = e2\<lparr>region_function_ids :=
                      AList.update (region_ptr region) (length (functions_vec e2)) (region_function_ids e2),
                    named_function_ids :=
                      AList.update name (length (functions_vec e2)) (named_function_ids e2)\<rparr>
        in case GetRegionFunctionType region of
             Inl a \<Rightarrow> (st\<lparr>aborted := Some a\<rparr>, False)
           | Inr ftype \<Rightarrow>
               (st\<lparr>table := e3\<lparr>functions_vec := functions_vec e3 @
                    [\<lparr>fe_name = name, fe_type = ftype, fe_kind = func_kind,
                      fe_region = Some region\<rparr>]\<rparr>\<rparr>, True))"

text \<open>Return the index of the specified function name, returning -1 if the function
  name cannot be found.\<close>

definition GetFunctionNamed :: "EntityTable \<Rightarrow> string \<Rightarrow> int" where
  "GetFunctionNamed e name =
     (case map_of (named_function_ids e) name of None \<Rightarrow> - 1 | Some i \<Rightarrow> int i)"

definition GetFunctionID :: "EntityTable \<Rightarrow> Region \<Rightarrow> abort + nat" where
  "GetFunctionID e region =
     (case map_of (region_function_ids e) (region_ptr region) of
        None \<Rightarrow> Inl (AssertionFailed ''region not added to entity table'') | Some i \<Rightarrow> Inr i)"

definition AddKernel :: "Operation \<Rightarrow> EntityTable \<Rightarrow> EntityTable" where
  "AddKernel op e =
     (case map_insert (op_name op) (length (kernels e)) (kernel_ids e) of
        (ids, False) \<Rightarrow> e
      | (ids, True) \<Rightarrow>
          AddString (op_name op) (e\<lparr>kernel_ids := ids, kernels := kernels e @ [op_name op]\<rparr>))"

definition GetKernelID :: "EntityTable \<Rightarrow> Operation \<Rightarrow> abort + nat" where
  "GetKernelID e op =
     (case map_of (kernel_ids e) (op_name op) of
        None \<Rightarrow> Inl (AssertionFailed ''Unknown kernel'') | Some i \<Rightarrow> Inr i)"

fun isa_NameLoc :: "Location \<Rightarrow> bool" where
  "isa_NameLoc (NameLoc n l) = True"
| "isa_NameLoc l = False"

fun isa_FileLineColLoc :: "Location \<Rightarrow> bool" where
  "isa_FileLineColLoc (FileLineColLoc f l c) = True"
| "isa_FileLineColLoc l = False"

text \<open>The name of a \<^verbatim>\<open>NameLoc\<close> goes through \<^verbatim>\<open>c_str()\<close>, which ends at the first NUL.\<close>

definition c_str :: "string \<Rightarrow> string" where
  "c_str s = takeWhile (\<lambda>c. of_char c \<noteq> (0::nat)) s"

definition AddDebugInfo :: "Operation \<Rightarrow> CollectState \<Rightarrow> CollectState" where
  "AddDebugInfo op st =
     (let loc0 = op_loc op;
          loc1 = (case loc0 of
                    FusedLoc locations \<Rightarrow>
                      (case find isa_NameLoc locations of Some l \<Rightarrow> l | None \<Rightarrow> loc0)
                  | _ \<Rightarrow> loc0);
          loc2 = (case loc1 of
                    CallSiteLoc callee caller \<Rightarrow> if isa_NameLoc callee then callee else loc1
                  | _ \<Rightarrow> loc1)
      in case loc2 of
           NameLoc name child \<Rightarrow>
             (case map_insert (op_ptr op) (c_str name) (debug_info (table st)) of
                (m, True) \<Rightarrow> on_table (\<lambda>e. e\<lparr>debug_info := m\<rparr>) st
              | (m, False) \<Rightarrow> st\<lparr>aborted := Some (AssertionFailed ''r.second'')\<rparr>)
         | _ \<Rightarrow> st)"

definition AddLocation :: "Operation \<Rightarrow> CollectState \<Rightarrow> CollectState" where
  "AddLocation op st =
     (let loc0 = op_loc op;
          loc1 = (case loc0 of
                    FusedLoc locations \<Rightarrow>
                      (case find isa_FileLineColLoc locations of Some l \<Rightarrow> l | None \<Rightarrow> loc0)
                  | _ \<Rightarrow> loc0);
          flc = (case loc1 of FileLineColLoc f l c \<Rightarrow> (f, l, c) | _ \<Rightarrow> ([], 0, 0));
          filename = fst flc;
          e = table st;
          next_filename_index = length (location_filenames e);
          ins = map_insert filename next_filename_index (location_filenames_index e);
          idx = (case map_of (fst ins) filename of Some i \<Rightarrow> i | None \<Rightarrow> next_filename_index);
          e1 = e\<lparr>location_filenames_index := fst ins,
                 location_filenames := (if idx = next_filename_index
                    then location_filenames e @ [filename] else location_filenames e)\<rparr>
      in case map_insert (op_ptr op) (idx, fst (snd flc), snd (snd flc)) (location_positions e1) of
           (m, True) \<Rightarrow> st\<lparr>table := e1\<lparr>location_positions := m\<rparr>\<rparr>
         | (m, False) \<Rightarrow> st\<lparr>aborted := Some (AssertionFailed ''r.second'')\<rparr>)"

fun isa_IntegerType :: "MType \<Rightarrow> bool" where
  "isa_IntegerType (IntegerType s) = True"
| "isa_IntegerType t = False"

fun AddAttributeType :: "Attribute \<Rightarrow> EntityTable \<Rightarrow> EntityTable" where
  "AddAttributeType (ArrayAttr elems) e = fold AddAttributeType elems e"
| "AddAttributeType (IntegerAttr t v) e = (if isa_IntegerType t then AddType t e else e)"
| "AddAttributeType (FloatAttr t v) e =
     AddType t (if isa_IntegerType t then AddType t e else e)"
| "AddAttributeType a e = e"


subsection \<open>The first pass: collecting the entities\<close>

definition digit_char :: "nat \<Rightarrow> char" where
  "digit_char d = char_of (48 + d)"

function show_nat :: "nat \<Rightarrow> string" where
  "show_nat n = (if n < 10 then [digit_char n] else show_nat (n div 10) @ [digit_char (n mod 10)])"
  by pat_completeness auto
termination
  by (relation "measure id") auto

declare show_nat.simps [simp del]

fun isa_SymbolRefAttr :: "Attribute \<Rightarrow> bool" where
  "isa_SymbolRefAttr (SymbolRefAttr root nested) = True"
| "isa_SymbolRefAttr a = False"

fun isa_FlatSymbolRefAttr :: "Attribute \<Rightarrow> bool" where
  "isa_FlatSymbolRefAttr (SymbolRefAttr root nested) = (nested = [])"
| "isa_FlatSymbolRefAttr a = False"

fun getRootReference :: "Attribute \<Rightarrow> string" where
  "getRootReference (SymbolRefAttr root nested) = root"
| "getRootReference a = []"

text \<open>A symbol reference prints as \<^verbatim>\<open>@root::@nested\<close>.\<close>

fun print_symbol_ref :: "Attribute \<Rightarrow> string" where
  "print_symbol_ref (SymbolRefAttr root nested) =
     ''@'' @ root @ concat (map (\<lambda>n. ''::@'' @ n) nested)"
| "print_symbol_ref a = []"

text \<open>An array attribute that is not empty and starts with a symbol reference.\<close>

fun is_array_of_symbol_refs :: "Attribute \<Rightarrow> bool" where
  "is_array_of_symbol_refs (ArrayAttr (a # as)) = isa_SymbolRefAttr a"
| "is_array_of_symbol_refs a = False"

fun is_array_of_flat_symbol_refs :: "Attribute \<Rightarrow> bool" where
  "is_array_of_flat_symbol_refs (ArrayAttr (a # as)) = isa_FlatSymbolRefAttr a"
| "is_array_of_flat_symbol_refs a = False"

definition SetVector_insert :: "'a \<Rightarrow> 'a list \<Rightarrow> 'a list" where
  "SetVector_insert x xs = (if x \<in> set xs then xs else xs @ [x])"

text \<open>The loop over the attributes of a kernel operation. The boolean is true when the
  loop left the callback (\<^verbatim>\<open>return\<close>).\<close>

fun collect_attrs ::
  "Env \<Rightarrow> bool \<Rightarrow> Operation \<Rightarrow> (string \<times> Attribute) list \<Rightarrow> CollectState \<Rightarrow> CollectState \<times> bool" where
  "collect_attrs env collect_names op [] st = (st, False)"
| "collect_attrs env collect_names op ((name, attr) # rest) st =
     (if name = ''_tfrt_cost'' then collect_attrs env collect_names op rest st
      else if ClassifyAttribute name \<noteq> kUnknown then collect_attrs env collect_names op rest st
      else if \<not> IsSupportedAttribute env attr \<and> cresult st = Success then
        ((emitError (''BEF files cannot encode the '' @ [CHR 0x27] @ name @ [CHR 0x27] @
            '' attribute'') st)\<lparr>cresult := Failure\<rparr>, True)
      else if isa_SymbolRefAttr attr \<and> \<not> SymbolInCompiledModule env attr then
        collect_attrs env collect_names op rest (st\<lparr>fn_attrs := fn_attrs st @ [(attr, op_loc op)]\<rparr>)
      else
        let st1 = (if collect_names
                   then on_table (\<lambda>e. AddAttributeType attr (AddString name e)) st else st)
        in if is_array_of_symbol_refs attr then collect_attrs env collect_names op rest st1
           else collect_attrs env collect_names op rest
                  (on_table (\<lambda>e. e\<lparr>attributes := SetVector_insert attr (attributes e)\<rparr>) st1))"

fun collect_regions :: "Region list \<Rightarrow> CollectState \<Rightarrow> CollectState" where
  "collect_regions [] st = st"
| "collect_regions (region # rest) st =
     (case AddFunction region [] kBEFFunction st of
        (st1, False) \<Rightarrow> (if aborted st1 = None then st1\<lparr>cresult := Failure\<rparr> else st1)
      | (st1, True) \<Rightarrow> collect_regions rest st1)"

fun sync_return_check :: "nat \<Rightarrow> MValue list \<Rightarrow> MValue list \<Rightarrow> string option" where
  "sync_return_check index [] return_operands = None"
| "sync_return_check index (operand # rest) return_operands =
     (if isa_BlockArgument operand then
        Some (''return value '' @ show_nat index @ '' is an argument in a sync function'')
      else if operand \<in> set return_operands then
        Some (''return value '' @ show_nat index @ '' is duplicated in a sync function'')
      else sync_return_check (Suc index) rest (return_operands @ [operand]))"

definition fail_with :: "string \<Rightarrow> CollectState \<Rightarrow> CollectState" where
  "fail_with msg st = (emitError msg st)\<lparr>cresult := Failure\<rparr>"

definition collect_func :: "Operation \<Rightarrow> CollectState \<Rightarrow> CollectState" where
  "collect_func fn st =
     (if IsNativeFunc fn then on_table (AddNativeFunction fn) st
      else if fn_isExternal fn then fail_with ''external functions are not allowed'' st
      else if block_ops (hd (region_blocks (fn_getBody fn))) = [] then
        st\<lparr>aborted := Some (AssertionFailed ''fn.front().back()'')\<rparr>
      else
        let last_op = last (block_ops (hd (region_blocks (fn_getBody fn)))) in
        if \<not> IsReturn last_op then fail_with ''all functions need to have a tfrt.return'' st
        else case (if IsSyncFunc fn then sync_return_check 0 (op_operands last_op) [] else None) of
          Some msg \<Rightarrow> fail_with msg st
        | None \<Rightarrow>
            (case AddFunction (fn_getBody fn) (fn_getName fn)
                    (if IsSyncFunc fn then kSyncBEFFunction else kBEFFunction) st of
               (st1, False) \<Rightarrow> (if aborted st1 = None then st1\<lparr>cresult := Failure\<rparr> else st1)
             | (st1, True) \<Rightarrow> st1))"

definition collect_kernel :: "Env \<Rightarrow> bool \<Rightarrow> Operation \<Rightarrow> CollectState \<Rightarrow> CollectState" where
  "collect_kernel env collect_names op st =
     (case collect_attrs env collect_names op (op_attrs op) (on_table (AddKernel op) st) of
        (st1, True) \<Rightarrow> st1
      | (st1, False) \<Rightarrow> collect_regions (op_regions op) st1)"

text \<open>The callback of the walk. Once an assertion has failed nothing more happens.\<close>

definition collect_op ::
  "Env \<Rightarrow> bool \<Rightarrow> Operation \<Rightarrow> WalkItem list \<Rightarrow> WalkItem \<Rightarrow> CollectState \<Rightarrow> CollectState" where
  "collect_op env collect_names module items it st =
     (let op = item_op it in
      if aborted st \<noteq> None then st
      else if op_ptr op = op_ptr module then st
      else if IsInCompiledModule env op then st
      else if IsReturn op then
        (if \<not> item_is_back it then fail_with ''return op must be at the end of its block'' st
         else st)
      else
        let st1 = AddLocation op st in
        if aborted st1 \<noteq> None then st1 else
        let st2 = AddDebugInfo op st1 in
        if aborted st2 \<noteq> None then st2 else
        let st3 = on_table (fold AddType (op_result_types op)) st2 in
        if list_ex (\<lambda>operand. value_getParentRegion items operand \<noteq> item_parent it)
             (op_operands op)
        then fail_with
          ''BEF executor only supports references to kernels within the current region'' st3
        else if isa_FuncOp op then collect_func op st3
        else collect_kernel env collect_names op st3)"

definition initial_collect_state :: CollectState where
  "initial_collect_state = \<lparr>table = empty_table, cresult = Success, fn_attrs = [], diags = [],
     aborted = None\<rparr>"

definition function_undefined :: "EntityTable \<Rightarrow> Attribute \<times> Location \<Rightarrow> bool" where
  "function_undefined e attr_and_loc = (GetFunctionNamed e (getRootReference (fst attr_and_loc)) = - 1)"

text \<open>The state after the walk of the module.\<close>

definition collect_walk :: "Env \<Rightarrow> Operation \<Rightarrow> bool \<Rightarrow> CollectState" where
  "collect_walk env module collect_attribute_types_and_names =
     fold (collect_op env collect_attribute_types_and_names module (module_walk module))
       (module_walk module) initial_collect_state"

definition Collect :: "Env \<Rightarrow> Operation \<Rightarrow> bool \<Rightarrow> CollectState" where
  "Collect env module collect_attribute_types_and_names =
     (let st = collect_walk env module collect_attribute_types_and_names
      in if aborted st \<noteq> None then st
         else if cresult st = Success then
           (case find (function_undefined (table st)) (fn_attrs st) of
              Some attr_and_loc \<Rightarrow>
                fail_with (''function '' @ print_symbol_ref (fst attr_and_loc) @ '' not defined'') st
            | None \<Rightarrow> st)
         else st)"


subsection \<open>The entity index\<close>

record FunctionIndexEntry =
  name_offset :: nat
  function_offset :: nat
  fie_type :: MType
  fie_kind :: FunctionKind

record EntityIndex =
  strings_idx :: "(string \<times> nat) list"
  attribute_offsets :: "(Attribute \<times> nat) list"
  function_index :: "FunctionIndexEntry list"
  location_position_offsets :: "(nat \<times> nat) list"
  debug_info_offset :: "(nat \<times> nat) list"

definition empty_index :: EntityIndex where
  "empty_index = \<lparr>strings_idx = [], attribute_offsets = [], function_index = [],
     location_position_offsets = [], debug_info_offset = []\<rparr>"

definition GetStringOffset :: "EntityIndex \<Rightarrow> string \<Rightarrow> abort + nat" where
  "GetStringOffset idx str =
     (case map_of (strings_idx idx) str of
        None \<Rightarrow> Inl (AssertionFailed ''String didn't get added to the entity collection'')
      | Some off \<Rightarrow> Inr off)"

definition index_AddString :: "string \<Rightarrow> nat \<Rightarrow> EntityIndex \<Rightarrow> abort + EntityIndex" where
  "index_AddString str off idx =
     (case map_insert str off (strings_idx idx) of
        (m, False) \<Rightarrow> Inl (AssertionFailed ''string already exists'')
      | (m, True) \<Rightarrow> Inr (idx\<lparr>strings_idx := m\<rparr>))"

definition GetAttributeOffset :: "EntityIndex \<Rightarrow> Attribute \<Rightarrow> abort + nat" where
  "GetAttributeOffset idx attribute =
     (case map_of (attribute_offsets idx) attribute of
        None \<Rightarrow> Inl (AssertionFailed ''attribute didn't get added to the entity collection'')
      | Some off \<Rightarrow> Inr off)"

definition AddAttributeOffset :: "Attribute \<Rightarrow> nat \<Rightarrow> EntityIndex \<Rightarrow> abort + EntityIndex" where
  "AddAttributeOffset attribute off idx =
     (case map_insert attribute off (attribute_offsets idx) of
        (m, False) \<Rightarrow> Inl (AssertionFailed ''attribute already in index'')
      | (m, True) \<Rightarrow> Inr (idx\<lparr>attribute_offsets := m\<rparr>))"

definition index_AddFunction ::
  "string \<Rightarrow> nat \<Rightarrow> MType \<Rightarrow> FunctionKind \<Rightarrow> EntityIndex \<Rightarrow> abort + EntityIndex" where
  "index_AddFunction name off type kind idx =
     (case GetStringOffset idx name of
        Inl a \<Rightarrow> Inl a
      | Inr name_off \<Rightarrow>
          Inr (idx\<lparr>function_index := function_index idx @
                 [\<lparr>name_offset = name_off, function_offset = off, fie_type = type,
                   fie_kind = kind\<rparr>]\<rparr>))"

definition GetLocationPositionOffset :: "EntityIndex \<Rightarrow> nat \<Rightarrow> abort + nat" where
  "GetLocationPositionOffset idx op =
     (case map_of (location_position_offsets idx) op of
        None \<Rightarrow> Inl (AssertionFailed ''unknown location'') | Some off \<Rightarrow> Inr off)"

definition GetDebugInfoOffset :: "EntityIndex \<Rightarrow> nat \<Rightarrow> nat option" where
  "GetDebugInfoOffset idx op = map_of (debug_info_offset idx) op"

subsection \<open>The module emitter: the second pass\<close>

fun foldM :: "('a \<Rightarrow> 's \<Rightarrow> abort + 's) \<Rightarrow> 'a list \<Rightarrow> 's \<Rightarrow> abort + 's" where
  "foldM f [] st = Inr st"
| "foldM f (x # xs) st = (case f x st of Inl a \<Rightarrow> Inl a | Inr st' \<Rightarrow> foldM f xs st')"

text \<open>Iterating a \<^verbatim>\<open>DenseMap\<close> keyed by operation addresses: the entries come in the
  order the map gives to its keys.\<close>

definition dense_iterate :: "(nat list \<Rightarrow> nat list) \<Rightarrow> (nat \<times> 'v) list \<Rightarrow> (nat \<times> 'v) list" where
  "dense_iterate ord m =
     List.map_filter (\<lambda>k. case map_of m k of Some v \<Rightarrow> Some (k, v) | None \<Rightarrow> None)
       (ord (map fst m))"

record BEFModuleEmitter =
  bef_file :: BefEmitter
  module_op :: Operation
  entities :: EntityTable
  entity_index :: EntityIndex

definition emit_cstring :: "string \<Rightarrow> BefEmitter \<Rightarrow> BefEmitter" where
  "emit_cstring str sec = EmitByte 0 (EmitBytes (string_bytes str) sec)"

definition emit_position ::
  "nat \<times> LocationTuple \<Rightarrow> EntityIndex \<times> BefEmitter \<Rightarrow> EntityIndex \<times> BefEmitter" where
  "emit_position entry st =
     (case entry of (op, (fidx, line, col)) \<Rightarrow>
        (case st of (idx, positions_section) \<Rightarrow>
          (idx\<lparr>location_position_offsets :=
                 AList.update op (emitter_size positions_section) (location_position_offsets idx)\<rparr>,
           EmitVbrInt col (EmitVbrInt line (EmitVbrInt fidx positions_section)))))"

definition EmitLocationInfo :: "Env \<Rightarrow> BEFModuleEmitter \<Rightarrow> BEFModuleEmitter" where
  "EmitLocationInfo env me =
     (let filenames_section = fold emit_cstring (location_filenames (entities me)) new_emitter;
          bef_file1 = EmitSectionOf (SectionIdByte env kLocationFilenames) filenames_section (bef_file me);
          r = fold emit_position
                (dense_iterate (DenseMapOrder env) (location_positions (entities me)))
                (entity_index me, new_emitter)
      in me\<lparr>entity_index := fst r,
            bef_file := EmitSectionOf (SectionIdByte env kLocationPositions) (snd r) bef_file1\<rparr>)"

definition emit_debug_entry ::
  "nat \<times> string \<Rightarrow> EntityIndex \<times> BefEmitter \<Rightarrow> EntityIndex \<times> BefEmitter" where
  "emit_debug_entry entry st =
     (case entry of (op, info) \<Rightarrow>
        (case st of (idx, debug_info_section) \<Rightarrow>
          (idx\<lparr>debug_info_offset :=
                 AList.update op (emitter_size debug_info_section) (debug_info_offset idx)\<rparr>,
           emit_cstring info debug_info_section)))"

definition EmitDebugInfo :: "Env \<Rightarrow> BEFModuleEmitter \<Rightarrow> BEFModuleEmitter" where
  "EmitDebugInfo env me =
     (let r = fold emit_debug_entry
                (dense_iterate (DenseMapOrder env) (debug_info (entities me)))
                (entity_index me, new_emitter)
      in me\<lparr>entity_index := fst r,
            bef_file := EmitSectionOf (SectionIdByte env kDebugInfo) (snd r) (bef_file me)\<rparr>)"

definition emit_string_entry ::
  "string \<Rightarrow> EntityIndex \<times> BefEmitter \<Rightarrow> abort + EntityIndex \<times> BefEmitter" where
  "emit_string_entry entry st =
     (case st of (idx, string_section) \<Rightarrow>
        (case index_AddString entry (emitter_size string_section) idx of
           Inl a \<Rightarrow> Inl a
         | Inr idx' \<Rightarrow> Inr (idx', emit_cstring entry string_section)))"

text \<open>We have an unordered collection of strings: sort them alphabetically to make
  them stable.\<close>

definition EmitStrings :: "Env \<Rightarrow> BEFModuleEmitter \<Rightarrow> abort + BEFModuleEmitter" where
  "EmitStrings env me =
     (let strs_in_order = sort (strings_pool (entities me)) in
      case foldM emit_string_entry strs_in_order (entity_index me, new_emitter) of
        Inl a \<Rightarrow> Inl a
      | Inr (idx, string_section) \<Rightarrow>
          Inr (me\<lparr>entity_index := idx,
                  bef_file := EmitSectionOf (SectionIdByte env kStrings) string_section (bef_file me)\<rparr>))"

definition emit_attribute_entry ::
  "Env \<Rightarrow> bool \<Rightarrow> Attribute \<Rightarrow> EntityIndex \<times> BefEmitter \<times> BefEmitter \<Rightarrow>
   abort + EntityIndex \<times> BefEmitter \<times> BefEmitter" where
  "emit_attribute_entry env with_types attr st =
     (case st of (idx, attributes_section, attribute_type_emitter) \<Rightarrow>
        let attribute_type = GetBefAttributeType env attr;
            r = (if IsSymbolRefAttribute env attribute_type
                 then EmitSymbolRefAttribute env attributes_section attr
                 else EmitAttribute env attributes_section attribute_type attr)
        in case AddAttributeOffset attr (fst r) idx of
             Inl a \<Rightarrow> Inl a
           | Inr idx' \<Rightarrow>
               Inr (idx', snd r,
                    if with_types
                    then EmitVbrInt attribute_type (EmitVbrInt (fst r) attribute_type_emitter)
                    else attribute_type_emitter))"

text \<open>\<^verbatim>\<open>EmitAttributes\<close>; the optional emitter \<open>attribute_types\<close> is \<open>None\<close> for the null
  pointer.\<close>

definition EmitAttributes ::
  "Env \<Rightarrow> BefEmitter option \<Rightarrow> BEFModuleEmitter \<Rightarrow> abort + BEFModuleEmitter \<times> BefEmitter option" where
  "EmitAttributes env attribute_types me =
     (case foldM (emit_attribute_entry env (attribute_types \<noteq> None)) (attributes (entities me))
             (entity_index me, new_emitter, new_emitter) of
        Inl a \<Rightarrow> Inl a
      | Inr (idx, attributes_section, attribute_type_emitter) \<Rightarrow>
          Inr (me\<lparr>entity_index := idx,
                  bef_file := EmitSectionOf (SectionIdByte env kAttributes) attributes_section (bef_file me)\<rparr>,
               map_option (\<lambda>at. EmitEmitter attribute_type_emitter
                                   (EmitVbrInt (length (attributes (entities me))) at))
                 attribute_types))"

definition emit_string_offset :: "EntityIndex \<Rightarrow> string \<Rightarrow> BefEmitter \<Rightarrow> abort + BefEmitter" where
  "emit_string_offset idx str sec =
     (case GetStringOffset idx str of Inl a \<Rightarrow> Inl a | Inr off \<Rightarrow> Inr (EmitVbrInt off sec))"

definition EmitKernels :: "Env \<Rightarrow> BEFModuleEmitter \<Rightarrow> abort + BEFModuleEmitter" where
  "EmitKernels env me =
     (case foldM (emit_string_offset (entity_index me)) (kernels (entities me))
             (EmitVbrInt (length (kernels (entities me))) new_emitter) of
        Inl a \<Rightarrow> Inl a
      | Inr ops_section \<Rightarrow>
          Inr (me\<lparr>bef_file := EmitSectionOf (SectionIdByte env kKernels) ops_section (bef_file me)\<rparr>))"

definition EmitTypes :: "Env \<Rightarrow> BEFModuleEmitter \<Rightarrow> abort + BEFModuleEmitter" where
  "EmitTypes env me =
     (case foldM (\<lambda>type. emit_string_offset (entity_index me) (print_type type))
             (types (entities me))
             (EmitVbrInt (length (types (entities me))) new_emitter) of
        Inl a \<Rightarrow> Inl a
      | Inr types_section \<Rightarrow>
          Inr (me\<lparr>bef_file := EmitSectionOf (SectionIdByte env kTypes) types_section (bef_file me)\<rparr>))"


subsection \<open>The function emitter\<close>

text \<open>
  The use list of a value: the operations using it, one entry per use. MLIR puts a new
  use at the head of the list, so with the operations created in the order of the walk
  the uses come latest first.
\<close>

definition use_list :: "WalkItem list \<Rightarrow> MValue \<Rightarrow> Operation list" where
  "use_list items v =
     rev (concat (map (\<lambda>it. map (\<lambda>operand. item_op it)
                              (filter (\<lambda>operand. operand = v) (op_operands (item_op it))))
                      items))"

text \<open>The function emitter holds the entity table and index of the module emitter, the
  operations of the module (for the use lists), and its two maps.\<close>

record BEFFunctionEmitter =
  fn_entities :: EntityTable
  fn_entity_index :: EntityIndex
  fn_items :: "WalkItem list"
  register_number :: "(MValue \<times> nat) list"
  kernel_index :: "(nat \<times> nat) list"

definition GetRegisterNumber :: "BEFFunctionEmitter \<Rightarrow> MValue \<Rightarrow> abort + nat" where
  "GetRegisterNumber fe reg =
     (case map_of (register_number fe) reg of
        None \<Rightarrow> Inl (AssertionFailed ''Unknown register'') | Some n \<Rightarrow> Inr n)"

definition GetPseudoResultRegisterNumber :: "BEFFunctionEmitter \<Rightarrow> nat" where
  "GetPseudoResultRegisterNumber fe = length (register_number fe)"

definition kDummyPseudoKernelCode :: "32 word" where
  "kDummyPseudoKernelCode = 0xABABABAB"

definition kDummyPseudoKernelLocation :: "32 word" where
  "kDummyPseudoKernelLocation = 0xCDCDCDCD"

definition kKernelEntryAlignment :: nat where
  "kKernelEntryAlignment = 4"

record RegisterTable =
  reg_table :: BefEmitter
  reg_type_table :: BefEmitter
  reg_numbers :: "(MValue \<times> nat) list"
  num_registers :: nat

definition emit_register ::
  "BEFFunctionEmitter \<Rightarrow> MValue \<Rightarrow> RegisterTable \<Rightarrow> abort + RegisterTable" where
  "emit_register fe reg rt =
     (case GetTypeIndex (fn_entities fe) (value_getType reg) of
        Inl a \<Rightarrow> Inl a
      | Inr type_index \<Rightarrow>
          Inr \<lparr>reg_table = EmitVbrInt (length (use_list (fn_items fe) reg)) (reg_table rt),
               reg_type_table = EmitVbrInt type_index (reg_type_table rt),
               reg_numbers = AList.update reg (num_registers rt) (reg_numbers rt),
               num_registers = Suc (num_registers rt)\<rparr>)"

definition block_registers :: "nat \<Rightarrow> Block \<Rightarrow> MValue list" where
  "block_registers rptr block = getArguments rptr block @ concat (map getResults (block_ops block))"

definition EmitRegisterTable ::
  "BEFFunctionEmitter \<Rightarrow> nat \<Rightarrow> Block \<Rightarrow> BefEmitter option \<Rightarrow> BefEmitter \<Rightarrow>
   abort + BEFFunctionEmitter \<times> BefEmitter option \<times> BefEmitter" where
  "EmitRegisterTable fe rptr block register_types emitter =
     (case foldM (emit_register fe) (block_registers rptr block)
             \<lparr>reg_table = new_emitter, reg_type_table = new_emitter,
              reg_numbers = register_number fe, num_registers = 0\<rparr> of
        Inl a \<Rightarrow> Inl a
      | Inr rt \<Rightarrow>
          Inr (fe\<lparr>register_number := reg_numbers rt\<rparr>,
               map_option (\<lambda>types_emitter. EmitEmitter (reg_type_table rt)
                                    (EmitVbrInt (num_registers rt) types_emitter)) register_types,
               EmitEmitter (reg_table rt) (EmitVbrInt (num_registers rt) emitter)))"

definition emit_user ::
  "BEFFunctionEmitter \<Rightarrow> Operation \<Rightarrow> nat \<times> BefEmitter \<Rightarrow> abort + nat \<times> BefEmitter" where
  "emit_user fe user st =
     (if IsReturn user then Inr st
      else case map_of (kernel_index fe) (op_ptr user) of
        None \<Rightarrow> Inl (AssertionFailed ''Invalid user'')
      | Some k \<Rightarrow> Inr (Suc (fst st), EmitInt4 (of_nat k) (snd st)))"

text \<open>\<^verbatim>\<open>EmitKernelResultUsers\<close>, on the pair of \<open>kernel_list\<close> and \<open>kernel_body\<close>.\<close>

definition EmitKernelResultUsers ::
  "BEFFunctionEmitter \<Rightarrow> Operation list \<Rightarrow> BefEmitter \<times> BefEmitter \<Rightarrow>
   abort + BefEmitter \<times> BefEmitter" where
  "EmitKernelResultUsers fe users st =
     (case foldM (emit_user fe) users (0, snd st) of
        Inl a \<Rightarrow> Inl a
      | Inr (num_users, kernel_body) \<Rightarrow> Inr (EmitInt4 (of_nat num_users) (fst st), kernel_body))"

definition emit_register_number ::
  "BEFFunctionEmitter \<Rightarrow> MValue \<Rightarrow> BefEmitter \<Rightarrow> abort + BefEmitter" where
  "emit_register_number fe reg emitter =
     (case GetRegisterNumber fe reg of
        Inl a \<Rightarrow> Inl a | Inr n \<Rightarrow> Inr (EmitInt4 (of_nat n) emitter))"

definition pseudo_kernel_header :: "Block \<Rightarrow> BefEmitter \<Rightarrow> BefEmitter" where
  "pseudo_kernel_header block kernel_list =
     EmitInt4 0
      (EmitInt4 (of_nat (length (block_arg_types block) + 1))
        (EmitInt4 0
          (EmitInt4 0
            (EmitInt4 0
              (EmitInt4 kDummyPseudoKernelLocation
                (EmitInt4 kDummyPseudoKernelCode kernel_list))))))"

definition EmitArgumentsPseudoKernel ::
  "BEFFunctionEmitter \<Rightarrow> nat \<Rightarrow> Block \<Rightarrow> BefEmitter \<Rightarrow> abort + BefEmitter" where
  "EmitArgumentsPseudoKernel fe rptr block kernel_list0 =
     (let kernel_list = pseudo_kernel_header block kernel_list0;
          kernel_body0 = EmitInt4 (of_nat (GetPseudoResultRegisterNumber fe)) new_emitter
      in case foldM (emit_register_number fe) (getArguments rptr block) kernel_body0 of
           Inl a \<Rightarrow> Inl a
         | Inr kernel_body \<Rightarrow>
             let ready_kernels = filter (\<lambda>op. op_operands op = []) (block_ops block) in
             case EmitKernelResultUsers fe ready_kernels (kernel_list, kernel_body) of
               Inl a \<Rightarrow> Inl a
             | Inr st \<Rightarrow>
                 (case foldM (\<lambda>arg. EmitKernelResultUsers fe (use_list (fn_items fe) arg))
                         (getArguments rptr block) st of
                    Inl a \<Rightarrow> Inl a
                  | Inr (kernel_list', kernel_body') \<Rightarrow>
                      if emitter_size kernel_list' mod kKernelEntryAlignment \<noteq> 0 then
                        Inl (AssertionFailed ''kernel_list->size() % kKernelEntryAlignment == 0'')
                      else if required_alignment kernel_body' \<noteq> kKernelEntryAlignment then
                        Inl (AssertionFailed
                          ''kernel_body.GetRequiredAlignment() == kKernelEntryAlignment'')
                      else Inr (EmitEmitter kernel_body' kernel_list')))"

record KernelAttrs =
  num_input_functions :: nat
  num_input_attributes :: nat
  input_function_emitter :: BefEmitter
  input_attribute_emitter :: BefEmitter
  special_attribute :: "32 word"
  attribute_names_emitter :: "BefEmitter option"

definition emit_function_ref :: "BEFFunctionEmitter \<Rightarrow> Attribute \<Rightarrow> KernelAttrs \<Rightarrow> abort + KernelAttrs" where
  "emit_function_ref fe fn ka =
     (if \<not> isa_FlatSymbolRefAttr fn then Inl (AssertionFailed ''dyn_cast<FlatSymbolRefAttr>'')
      else Inr (ka\<lparr>num_input_functions := Suc (num_input_functions ka),
                   input_function_emitter :=
                     EmitInt4 (of_int (GetFunctionNamed (fn_entities fe) (getRootReference fn)))
                       (input_function_emitter ka)\<rparr>))"

fun array_elements :: "Attribute \<Rightarrow> Attribute list" where
  "array_elements (ArrayAttr elems) = elems"
| "array_elements a = []"

definition emit_kernel_attr ::
  "BEFFunctionEmitter \<Rightarrow> string \<times> Attribute \<Rightarrow> KernelAttrs \<Rightarrow> abort + KernelAttrs" where
  "emit_kernel_attr fe attr_name_pair ka =
     (let name = fst attr_name_pair; attr = snd attr_name_pair in
      if name = ''_tfrt_cost'' then Inr ka
      else if ClassifyAttribute name = kNonStrict then
        Inr (ka\<lparr>special_attribute := or (special_attribute ka) (SpecialAttribute_bits kNonStrict)\<rparr>)
      else if is_array_of_flat_symbol_refs attr then
        foldM (emit_function_ref fe) (array_elements attr) ka
      else if isa_FlatSymbolRefAttr attr then emit_function_ref fe attr ka
      else
        case (case attribute_names_emitter ka of
                None \<Rightarrow> Inr None
              | Some names \<Rightarrow>
                  (case GetStringOffset (fn_entity_index fe) name of
                     Inl a \<Rightarrow> Inl a | Inr off \<Rightarrow> Inr (Some (EmitVbrInt off names)))) of
          Inl a \<Rightarrow> Inl a
        | Inr names' \<Rightarrow>
            (case GetAttributeOffset (fn_entity_index fe) attr of
               Inl a \<Rightarrow> Inl a
             | Inr off \<Rightarrow>
                 Inr (ka\<lparr>attribute_names_emitter := names',
                         num_input_attributes := Suc (num_input_attributes ka),
                         input_attribute_emitter :=
                           EmitInt4 (of_nat off) (input_attribute_emitter ka)\<rparr>)))"

definition emit_region_function ::
  "BEFFunctionEmitter \<Rightarrow> Region \<Rightarrow> BefEmitter \<Rightarrow> abort + BefEmitter" where
  "emit_region_function fe region emitter =
     (case GetFunctionID (fn_entities fe) region of
        Inl a \<Rightarrow> Inl a | Inr n \<Rightarrow> Inr (EmitInt4 (of_nat n) emitter))"

text \<open>The seven words of a kernel header, in the order \<^verbatim>\<open>EmitKernel\<close> writes them.\<close>

definition kernel_header ::
  "32 word \<Rightarrow> 32 word \<Rightarrow> 32 word \<Rightarrow> 32 word \<Rightarrow> 32 word \<Rightarrow> 32 word \<Rightarrow> 32 word \<Rightarrow>
   BefEmitter \<Rightarrow> BefEmitter" where
  "kernel_header opcode location n_args n_attrs n_funcs n_results special kernel_list =
     EmitInt4 special (EmitInt4 n_results (EmitInt4 n_funcs (EmitInt4 n_attrs
       (EmitInt4 n_args (EmitInt4 location (EmitInt4 opcode kernel_list))))))"

definition EmitKernel ::
  "BEFFunctionEmitter \<Rightarrow> Operation \<Rightarrow> BefEmitter \<Rightarrow> BefEmitter option \<Rightarrow>
   abort + BefEmitter \<times> BefEmitter option" where
  "EmitKernel fe op kernel_list attribute_names =
     (case GetKernelID (fn_entities fe) op of Inl a \<Rightarrow> Inl a | Inr opcode \<Rightarrow>
      case GetLocationPositionOffset (fn_entity_index fe) (op_ptr op) of Inl a \<Rightarrow> Inl a
      | Inr location_offset \<Rightarrow>
      case foldM (emit_register_number fe) (op_operands op) new_emitter of Inl a \<Rightarrow> Inl a
      | Inr body1 \<Rightarrow>
      case foldM (emit_kernel_attr fe) (op_attrs op)
             \<lparr>num_input_functions = 0, num_input_attributes = 0,
              input_function_emitter = new_emitter, input_attribute_emitter = new_emitter,
              special_attribute = 0, attribute_names_emitter = attribute_names\<rparr> of
        Inl a \<Rightarrow> Inl a
      | Inr ka \<Rightarrow>
      let body2 = EmitEmitter (input_attribute_emitter ka) body1 in
      case foldM (emit_region_function fe) (op_regions op) (input_function_emitter ka) of
        Inl a \<Rightarrow> Inl a
      | Inr function_emitter \<Rightarrow>
      let body3 = EmitEmitter function_emitter body2 in
      case foldM (emit_register_number fe) (getResults op) body3 of Inl a \<Rightarrow> Inl a
      | Inr body4 \<Rightarrow>
      let debug_offset = GetDebugInfoOffset (fn_entity_index fe) (op_ptr op);
          special = (if debug_offset \<noteq> None
                     then or (special_attribute ka) (SpecialAttribute_bits kHasDebugInfo)
                     else special_attribute ka);
          kernel_list1 = kernel_header (of_nat opcode) (of_nat location_offset)
                           (of_nat (length (op_operands op)))
                           (of_nat (num_input_attributes ka))
                           (of_nat (num_input_functions ka + length (op_regions op)))
                           (of_nat (length (op_result_types op))) special kernel_list
      in
      case foldM (\<lambda>res. EmitKernelResultUsers fe (use_list (fn_items fe) res))
             (getResults op) (kernel_list1, body4) of
        Inl a \<Rightarrow> Inl a
      | Inr (kernel_list2, body5) \<Rightarrow>
      let kernel_body = (case debug_offset of None \<Rightarrow> body5
                         | Some off \<Rightarrow> EmitInt4 (of_nat off) body5)
      in if emitter_size kernel_list2 mod kKernelEntryAlignment \<noteq> 0 then
           Inl (AssertionFailed ''kernel_list->size() % kKernelEntryAlignment == 0'')
         else if \<not> (emitter_size kernel_body = 0 \<or>
                     required_alignment kernel_body = kKernelEntryAlignment) then
           Inl (AssertionFailed ''kernel_body.GetRequiredAlignment() == kKernelEntryAlignment'')
         else Inr (EmitEmitter kernel_body (EmitAlignment 4 kernel_list2),
                   attribute_names_emitter ka))"


text \<open>Get a dense numbering of kernels, including the pseudo kernel (number 0).\<close>

fun number_kernels :: "Operation list \<Rightarrow> (nat \<times> nat) list \<times> nat \<Rightarrow> (nat \<times> nat) list \<times> nat" where
  "number_kernels [] st = st"
| "number_kernels (op # ops) st =
     number_kernels ops
       (if IsReturn op then st
        else (AList.update (op_ptr op) (snd st) (fst st), Suc (snd st)))"

definition is_non_strict :: "Operation \<Rightarrow> bool" where
  "is_non_strict op =
     list_ex (\<lambda>attr_and_name. ClassifyAttribute (fst attr_and_name) = kNonStrict) (op_attrs op)"

text \<open>Number of operands that need to be available before the kernel is ready to go:
  set to 1 for non-strict kernels so they get kicked off as soon as any argument is
  available.\<close>

definition num_operands_before_running :: "Operation \<Rightarrow> nat" where
  "num_operands_before_running op =
     (if is_non_strict op \<and> length (op_operands op) \<noteq> 0 then 1 else length (op_operands op))"

record FunctionBody =
  fb_emitter :: BefEmitter
  fb_kernel_list :: BefEmitter
  fb_attribute_names :: "BefEmitter option"
  fb_return_op :: "Operation option"

text \<open>One round of the loop over the operations of the block in \<^verbatim>\<open>EmitFunction\<close>.\<close>

definition emit_kernel_entry ::
  "Env \<Rightarrow> BEFFunctionEmitter \<Rightarrow> Block \<Rightarrow> Operation \<Rightarrow> FunctionBody \<Rightarrow> abort + FunctionBody" where
  "emit_kernel_entry env fe block op fb =
     (if IsReturn op then Inr (fb\<lparr>fb_return_op := Some op\<rparr>)
      else
        let emitter = EmitVbrInt (GetStream env block op)
                       (EmitVbrInt (num_operands_before_running op)
                         (EmitVbrInt (emitter_size (fb_kernel_list fb)) (fb_emitter fb)))
        in case EmitKernel fe op (fb_kernel_list fb) (fb_attribute_names fb) of
             Inl a \<Rightarrow> Inl a
           | Inr (kernel_list, attribute_names) \<Rightarrow>
               Inr (fb\<lparr>fb_emitter := emitter, fb_kernel_list := kernel_list,
                       fb_attribute_names := attribute_names\<rparr>))"

text \<open>\<^verbatim>\<open>EmitFunction\<close> appends one function to the functions section \<open>emitter\<close>; the
  optional emitters are \<open>None\<close> for null pointers.\<close>

definition EmitFunction ::
  "Env \<Rightarrow> BEFFunctionEmitter \<Rightarrow> Region \<Rightarrow> BefEmitter option \<Rightarrow> BefEmitter option \<Rightarrow>
   BefEmitter \<Rightarrow> abort + BefEmitter \<times> BefEmitter option \<times> BefEmitter option" where
  "EmitFunction env fe0 region attribute_names register_types emitter0 =
     (let fe1 = fe0\<lparr>register_number := [], kernel_index := []\<rparr> in
      if length (region_blocks region) \<noteq> 1 then
        Inl (AssertionFailed ''should have a single block'')
      else
      let block = hd (region_blocks region) in
      case GetLocationPositionOffset (fn_entity_index fe1) (region_parent_op region) of
        Inl a \<Rightarrow> Inl a
      | Inr location_offset \<Rightarrow>
      case EmitRegisterTable fe1 (region_ptr region) block register_types
             (EmitVbrInt location_offset emitter0) of
        Inl a \<Rightarrow> Inl a
      | Inr (fe2, register_types', emitter1) \<Rightarrow>
      let numbering = number_kernels (block_ops block) (kernel_index fe2, 1);
          fe = fe2\<lparr>kernel_index := fst numbering\<rparr>;
          num_kernels = snd numbering;
          emitter2 = EmitVbrInt num_kernels emitter1;
          attribute_names1 = map_option (EmitVbrInt num_kernels) attribute_names;
          emitter3 = EmitVbrInt (GetRootStream env block)
                       (EmitVbrInt 0 (EmitVbrInt (emitter_size new_emitter) emitter2))
      in
      case EmitArgumentsPseudoKernel fe (region_ptr region) block new_emitter of
        Inl a \<Rightarrow> Inl a
      | Inr kernel_list \<Rightarrow>
      case foldM (emit_kernel_entry env fe block) (block_ops block)
             \<lparr>fb_emitter = emitter3, fb_kernel_list = kernel_list,
              fb_attribute_names = attribute_names1, fb_return_op = None\<rparr> of
        Inl a \<Rightarrow> Inl a
      | Inr fb \<Rightarrow>
      case foldM (\<lambda>operand em. case GetRegisterNumber fe operand of
                                  Inl a \<Rightarrow> Inl a | Inr n \<Rightarrow> Inr (EmitVbrInt n em))
             (case fb_return_op fb of None \<Rightarrow> [] | Some return_op \<Rightarrow> op_operands return_op)
             (fb_emitter fb) of
        Inl a \<Rightarrow> Inl a
      | Inr emitter4 \<Rightarrow>
          Inr (EmitEmitter (fb_kernel_list fb) (EmitAlignment 4 emitter4),
               fb_attribute_names fb, register_types'))"

record FunctionsState =
  fs_index :: EntityIndex
  fs_section :: BefEmitter
  fs_attribute_names :: "BefEmitter option"
  fs_register_types :: "BefEmitter option"

definition emit_function_entry ::
  "Env \<Rightarrow> BEFModuleEmitter \<Rightarrow> FunctionEntry \<Rightarrow> FunctionsState \<Rightarrow> abort + FunctionsState" where
  "emit_function_entry env me function_entry fs =
     (case index_AddFunction (fe_name function_entry) (emitter_size (fs_section fs))
             (fe_type function_entry) (fe_kind function_entry) (fs_index fs) of
        Inl a \<Rightarrow> Inl a
      | Inr idx \<Rightarrow>
          if IsNative function_entry then Inr (fs\<lparr>fs_index := idx\<rparr>)
          else case fe_region function_entry of
            None \<Rightarrow> Inl (AssertionFailed ''function_entry.region'')
          | Some region \<Rightarrow>
              (case EmitFunction env
                      \<lparr>fn_entities = entities me, fn_entity_index = idx,
                       fn_items = module_walk (module_op me),
                       register_number = [], kernel_index = []\<rparr>
                      region (fs_attribute_names fs) (fs_register_types fs) (fs_section fs) of
                 Inl a \<Rightarrow> Inl a
               | Inr (section, attribute_names, register_types) \<Rightarrow>
                   Inr \<lparr>fs_index = idx, fs_section = section,
                        fs_attribute_names = attribute_names,
                        fs_register_types = register_types\<rparr>))"

definition emit_type_index :: "EntityTable \<Rightarrow> MType \<Rightarrow> BefEmitter \<Rightarrow> abort + BefEmitter" where
  "emit_type_index e type sec =
     (case GetTypeIndex e type of Inl a \<Rightarrow> Inl a | Inr i \<Rightarrow> Inr (EmitVbrInt i sec))"

definition emit_function_index_entry ::
  "Env \<Rightarrow> EntityTable \<Rightarrow> FunctionIndexEntry \<Rightarrow> BefEmitter \<Rightarrow> abort + BefEmitter" where
  "emit_function_index_entry env e entry sec =
     (let sec1 = EmitVbrInt (length (type_inputs (fie_type entry)))
                   (EmitVbrInt (name_offset entry)
                     (EmitVbrInt (function_offset entry)
                       (EmitByte (FunctionKindByte env (fie_kind entry)) sec)))
      in case foldM (emit_type_index e) (type_inputs (fie_type entry)) sec1 of
           Inl a \<Rightarrow> Inl a
         | Inr sec2 \<Rightarrow>
             foldM (emit_type_index e) (type_results (fie_type entry))
               (EmitVbrInt (length (type_results (fie_type entry))) sec2))"

definition EmitFunctions ::
  "Env \<Rightarrow> BefEmitter option \<Rightarrow> BefEmitter option \<Rightarrow> BEFModuleEmitter \<Rightarrow>
   abort + BEFModuleEmitter \<times> BefEmitter option \<times> BefEmitter option" where
  "EmitFunctions env attribute_names register_types me =
     (let n = length (functions_vec (entities me)) in
      case foldM (emit_function_entry env me) (functions_vec (entities me))
             \<lparr>fs_index = entity_index me, fs_section = new_emitter,
              fs_attribute_names = map_option (EmitVbrInt n) attribute_names,
              fs_register_types = map_option (EmitVbrInt n) register_types\<rparr> of
        Inl a \<Rightarrow> Inl a
      | Inr fs \<Rightarrow>
          (case foldM (emit_function_index_entry env (entities me)) (function_index (fs_index fs))
                  (EmitVbrInt (length (function_index (fs_index fs))) new_emitter) of
             Inl a \<Rightarrow> Inl a
           | Inr function_index_section \<Rightarrow>
               Inr (me\<lparr>entity_index := fs_index fs,
                       bef_file := EmitSectionOf (SectionIdByte env kFunctions) (fs_section fs)
                         (EmitSectionOf (SectionIdByte env kFunctionIndex) function_index_section
                            (bef_file me))\<rparr>,
                    fs_attribute_names fs, fs_register_types fs)))"

subsection \<open>The converter\<close>

text \<open>Modelled from the spec: the magic bytes \<^verbatim>\<open>{kBEFMagic1, kBEFMagic2, kBEFVersion0}\<close>
  (tfrt/support/bef\_encoding.h is not among the sources); the spec gives
  \<^verbatim>\<open>0xEF 0xAB 0xAF\<close>.\<close>

definition bef_magic :: "byte list" where
  "bef_magic = [0xEF, 0xAB, 0xAF]"

definition emit_optional_section :: "byte \<Rightarrow> BefEmitter option \<Rightarrow> BefEmitter \<Rightarrow> BefEmitter" where
  "emit_optional_section section_id sec e =
     (case sec of None \<Rightarrow> e | Some emitter \<Rightarrow> EmitSectionOf section_id emitter e)"

text \<open>
  This function converts the module to the BEF format. On error it returns an empty
  vector (the errors go to the diagnostics of the first pass). \<open>Inl\<close> is a failed
  assertion.
\<close>

definition ConvertMLIRToBEF :: "Env \<Rightarrow> Operation \<Rightarrow> bool \<Rightarrow> abort + byte list" where
  "ConvertMLIRToBEF env module disable_optional_sections =
     (let st = Collect env module (\<not> disable_optional_sections) in
      case aborted st of Some a \<Rightarrow> Inl a | None \<Rightarrow>
      if cresult st = Failure then Inr []
      else
      let me0 = \<lparr>bef_file = EmitBytes bef_magic new_emitter, module_op = module,
                 entities = table st, entity_index = empty_index\<rparr>;
          me2 = EmitDebugInfo env (EmitLocationInfo env me0)
      in
      case EmitStrings env me2 of Inl a \<Rightarrow> Inl a | Inr me3 \<Rightarrow>
      case EmitAttributes env (if disable_optional_sections then None else Some new_emitter) me3 of
        Inl a \<Rightarrow> Inl a
      | Inr (me4, attribute_types) \<Rightarrow>
      case EmitKernels env me4 of Inl a \<Rightarrow> Inl a | Inr me5 \<Rightarrow>
      case EmitTypes env me5 of Inl a \<Rightarrow> Inl a | Inr me6 \<Rightarrow>
      if disable_optional_sections then
        (case EmitFunctions env None None me6 of
           Inl a \<Rightarrow> Inl a
         | Inr (me7, attribute_names, register_types) \<Rightarrow> Inr (result_bytes (bef_file me7)))
      else
        (case EmitFunctions env (Some new_emitter) (Some new_emitter) me6 of
           Inl a \<Rightarrow> Inl a
         | Inr (me7, attribute_names, register_types) \<Rightarrow>
             Inr (result_bytes
               (emit_optional_section (SectionIdByte env kRegisterTypes) register_types
                 (emit_optional_section (SectionIdByte env kAttributeNames) attribute_names
                   (emit_optional_section (SectionIdByte env kAttributeTypes) attribute_types
                     (bef_file me7)))))))"

subsection \<open>Example inputs of the runtime kernels\<close>







subsection \<open>The invariant of the type pool\<close>

text \<open>The index of a type is its position in \<open>types\<close>, no type occurs twice, and the
  string pool holds the name of every type, each string once.\<close>

definition types_ok :: "EntityTable \<Rightarrow> bool" where
  "types_ok e = (type_ids e = zip (types e) [0..<length (types e)] \<and> distinct (types e)
      \<and> distinct (strings_pool e)
      \<and> list_all (\<lambda>t. print_type t \<in> set (strings_pool e)) (types e))"

subsection \<open>Example inputs of the converter\<close>

text \<open>An environment for the examples: no compiled modules, every attribute supported and
  emitted as one byte, one stream, and the section numbers 1 to 12. The keys of a
  \<^verbatim>\<open>DenseMap\<close> come in the order of their buckets; for few keys with small addresses that
  is the order of the hash of the address, \<^verbatim>\<open>(p >> 4) ^ (p >> 9)\<close>.\<close>

fun ex_section_id :: "BEFSectionID \<Rightarrow> byte" where
  "ex_section_id kLocationFilenames = 1"
| "ex_section_id kLocationPositions = 2"
| "ex_section_id kStrings = 3"
| "ex_section_id kAttributes = 4"
| "ex_section_id kKernels = 5"
| "ex_section_id kTypes = 6"
| "ex_section_id kFunctionIndex = 7"
| "ex_section_id kFunctions = 8"
| "ex_section_id kAttributeTypes = 9"
| "ex_section_id kAttributeNames = 10"
| "ex_section_id kRegisterTypes = 11"
| "ex_section_id kDebugInfo = 12"

fun ex_kind_byte :: "FunctionKind \<Rightarrow> byte" where
  "ex_kind_byte kBEFFunction = 0"
| "ex_kind_byte kNativeFunction = 1"
| "ex_kind_byte kSyncBEFFunction = 2"

definition ex_emit_attribute :: "BefEmitter \<Rightarrow> nat \<Rightarrow> Attribute \<Rightarrow> nat \<times> BefEmitter" where
  "ex_emit_attribute em t a = (emitter_size em, EmitByte 0 em)"

definition ex_emit_symbol_ref :: "BefEmitter \<Rightarrow> Attribute \<Rightarrow> nat \<times> BefEmitter" where
  "ex_emit_symbol_ref em a = ex_emit_attribute em 0 a"

definition ex_pointer_hash :: "nat \<Rightarrow> nat" where
  "ex_pointer_hash p = unat (xor (drop_bit 4 (of_nat p :: 32 word)) (drop_bit 9 (of_nat p)))"

definition ex_dense_order :: "nat list \<Rightarrow> nat list" where
  "ex_dense_order keys = sort_key ex_pointer_hash keys"

definition ex_false :: "'a \<Rightarrow> bool" where
  "ex_false x = False"

definition ex_true :: "'a \<Rightarrow> bool" where
  "ex_true x = True"

definition ex_zero :: "'a \<Rightarrow> nat" where
  "ex_zero x = 0"

definition ex_stream :: "Block \<Rightarrow> Operation \<Rightarrow> nat" where
  "ex_stream b op = 0"

definition ex_env :: Env where
  "ex_env = \<lparr>IsInCompiledModule = ex_false, SymbolInCompiledModule = ex_false,
     IsSupportedAttribute = ex_true, GetBefAttributeType = ex_zero,
     IsSymbolRefAttribute = ex_false, EmitAttribute = ex_emit_attribute,
     EmitSymbolRefAttribute = ex_emit_symbol_ref,
     GetRootStream = ex_zero, GetStream = ex_stream, DenseMapOrder = ex_dense_order,
     SectionIdByte = ex_section_id, FunctionKindByte = ex_kind_byte\<rparr>"

text \<open>A module with one function \<open>main\<close> whose body is the given operations; the
  function operation has the given additional attributes.\<close>

definition ex_module :: "(string \<times> Attribute) list \<Rightarrow> Operation list \<Rightarrow> Operation" where
  "ex_module fn_attributes body =
     Operation 16 ''module'' UnknownLoc [] [] []
       [Region 32 16 UnknownLoc [Block []
         [Operation 48 ''func'' (FileLineColLoc ''f.mlir'' 1 1) [] []
            ([(''sym_name'', StringAttr ''main''), (''type'', TypeAttr (FunctionType [] []))]
             @ fn_attributes)
            [Region 64 48 UnknownLoc [Block [] body]]]]]"

definition ex_return :: Operation where
  "ex_return = Operation 80 ''tfrt.return'' (FileLineColLoc ''f.mlir'' 9 3) [] [] [] []"

text \<open>A kernel that refers to a function \<open>missing\<close>, which the module does not define.\<close>

definition ex_call :: Operation where
  "ex_call = Operation 96 ''tfrt.call'' (FileLineColLoc ''f.mlir'' 2 3) [] []
     [(''callee'', SymbolRefAttr ''missing'' [])] []"

definition ex_call_module :: Operation where
  "ex_call_module = ex_module [] [ex_call, ex_return]"

text \<open>The same reference as an attribute of the function operation itself.\<close>

definition ex_fn_attr_module :: Operation where
  "ex_fn_attr_module = ex_module [(''callee'', SymbolRefAttr ''missing'' [])] [ex_return]"

subsection \<open>Reading the sections of a file\<close>

text \<open>The sequence of \<^verbatim>\<open>EmitSection\<close> calls that writes a list of sections.\<close>

definition emit_section_entry :: "Env \<Rightarrow> BEFSectionID \<times> BefEmitter \<Rightarrow> BefEmitter \<Rightarrow> BefEmitter" where
  "emit_section_entry env entry e = EmitSectionOf (SectionIdByte env (fst entry)) (snd entry) e"

definition emit_sections :: "Env \<Rightarrow> (BEFSectionID \<times> BefEmitter) list \<Rightarrow> BefEmitter \<Rightarrow> BefEmitter" where
  "emit_sections env secs e = fold (emit_section_entry env) secs e"

text \<open>
  A reader of the file format, following the spec's words:
  \<^verbatim>\<open>file := magic[3] section*\<close> and
  \<^verbatim>\<open>section := id:u8 len_and_flag:vbr [align:u8 pad*] body[len]\<close> with
  \<^verbatim>\<open>len_and_flag = (len<<1) | aligned_flag\<close>. It returns the identifiers of the sections
  in the order of the file. The fuel bounds the number of sections read.
\<close>

fun read_vbr :: "nat \<Rightarrow> byte list \<Rightarrow> (nat \<times> byte list) option" where
  "read_vbr acc [] = None"
| "read_vbr acc (b # bs) =
     (if bit b 7 then read_vbr (acc * 128 + unat b mod 128) bs
      else Some (acc * 128 + unat b, bs))"

fun read_section_ids :: "nat \<Rightarrow> nat \<Rightarrow> byte list \<Rightarrow> byte list option" where
  "read_section_ids fuel off [] = Some []"
| "read_section_ids 0 off (b # bs) = None"
| "read_section_ids (Suc fuel) off (section_id # bs) =
     (case read_vbr 0 bs of
        None \<Rightarrow> None
      | Some (len_and_flag, rest) \<Rightarrow>
          let off1 = off + 1 + (length bs - length rest);
              len = len_and_flag div 2
          in if len_and_flag mod 2 = 0 then
               (if length rest < len then None
                else map_option ((#) section_id)
                       (read_section_ids fuel (off1 + len) (drop len rest)))
             else
               (case rest of
                  [] \<Rightarrow> None
                | align # rest1 \<Rightarrow>
                    let a = unat align;
                        pad = (a - (off1 + 1) mod a) mod a
                    in if a = 0 \<or> length rest1 < pad + len then None
                       else map_option ((#) section_id)
                              (read_section_ids fuel (off1 + 1 + pad + len)
                                 (drop (pad + len) rest1))))"

definition file_section_ids :: "abort + byte list \<Rightarrow> byte list option" where
  "file_section_ids r =
     (case r of
        Inl a \<Rightarrow> None
      | Inr bytes \<Rightarrow>
          if take 3 bytes = bef_magic then read_section_ids (length bytes) 3 (drop 3 bytes)
          else None)"

subsection \<open>Auxiliary notions for the first pass\<close>

text \<open>A step of the first pass keeps a failure and the function references recorded so
  far.\<close>

definition frame :: "CollectState \<Rightarrow> CollectState \<Rightarrow> bool" where
  "frame st st' \<longleftrightarrow> (cresult st' = Failure \<or> cresult st' = cresult st)
                    \<and> set (fn_attrs st) \<subseteq> set (fn_attrs st')"

text \<open>A symbol reference that the loop over the attributes has to record.\<close>

definition recorded_ref :: "Env \<Rightarrow> string \<times> Attribute \<Rightarrow> bool" where
  "recorded_ref env na \<longleftrightarrow> fst na \<noteq> ''_tfrt_cost'' \<and> ClassifyAttribute (fst na) = kUnknown
     \<and> isa_SymbolRefAttr (snd na) \<and> \<not> SymbolInCompiledModule env (snd na)"

(*DEFS_END*)

section \<open>Properties of the core runtime kernels\<close>

subsection \<open>Helper lemmas\<close>



subsection \<open>The tensor predicate\<close>

text \<open>
  C7, as the code has it. The predicate of a dense host tensor with a single element is
  that element read as a boolean (nonzero is true) when the dtype is \<open>BOOL\<close> or one of
  the integer kinds; the predicate of a string host tensor is false exactly when the
  tensor is empty or its first element is the empty string; a tensor of any other
  tensor type \<open>T\<close> gives the error \<open>tensor predicate does not support type T\<close>.
\<close>

theorem GetTensorPredicateValue_rule:
  "GetTensorPredicateValue (DenseHT \<lparr>dht_shape = sh, dht_data = BoolData [b]\<rparr>) = Inr (Inr b)
   \<and> GetTensorPredicateValue (DenseHT \<lparr>dht_shape = sh, dht_data = IntData k [x]\<rparr>) = Inr (Inr (x \<noteq> 0))
   \<and> (\<exists>p. GetTensorPredicateValue (StringHT sht) = Inr (Inr p)
          \<and> (p = False \<longleftrightarrow> (strings sht = [] \<or> strings sht ! 0 = [])))
   \<and> GetTensorPredicateValue (OtherTensor T) = Inr (Inl (''tensor predicate does not support type '' @ T))"
  by (auto simp: GetTensorPredicateValue_def GetDHTPredicateValue_def)

theorem GetTensorPredicateValue_rule_witness:
  "GetTensorPredicateValue (DenseHT \<lparr>dht_shape = [], dht_data = IntData 0 [7]\<rparr>) = Inr (Inr True)
   \<and> GetTensorPredicateValue (DenseHT \<lparr>dht_shape = [], dht_data = IntData 0 [0]\<rparr>) = Inr (Inr False)
   \<and> GetTensorPredicateValue (StringHT \<lparr>sht_metadata = \<lparr>dtype = String, shape = [1]\<rparr>, strings = [[]]\<rparr>)
       = Inr (Inr False)"
  using GetTensorPredicateValue_rule [of "[]" True 0 7 "\<lparr>sht_metadata = \<lparr>dtype = String, shape = [1]\<rparr>, strings = [[]]\<rparr>" "[]"]
    GetTensorPredicateValue_rule [of "[]" True 0 0 "\<lparr>sht_metadata = \<lparr>dtype = String, shape = [1]\<rparr>, strings = [[]]\<rparr>" "[]"]
  by auto

text \<open>
  A dense host tensor with a single element whose dtype is neither \<open>BOOL\<close> nor an integer
  kind has no predicate: the switch of \<^verbatim>\<open>GetDHTPredicateValue\<close> reaches its default
  case, \<^verbatim>\<open>llvm_unreachable("dtype not supported")\<close>.
\<close>

theorem GetTensorPredicateValue_other_dtype:
  "GetTensorPredicateValue (DenseHT \<lparr>dht_shape = [1], dht_data = OtherData 0 [1]\<rparr>)
     = Inl (UnreachableExecuted ''dtype not supported'')"
  by (simp add: GetTensorPredicateValue_def GetDHTPredicateValue_def)

subsection \<open>corert.while\<close>





subsection \<open>corert.const\_string\_tensor\<close>



section \<open>Properties of the converter\<close>

subsection \<open>Interning of types\<close>



lemma map_of_zip_upt_None:
  "map_of (zip xs [0..<length xs]) t = None \<longleftrightarrow> t \<notin> set xs"
proof -
  have "fst ` set (zip xs [0..<length xs]) = set xs"
    by (metis length_upt diff_zero map_fst_zip set_map)
  then show ?thesis by (simp add: map_of_eq_None_iff)
qed


lemma zip_snoc_upt:
  "zip (xs @ [t]) [0..<Suc (length xs)] = zip xs [0..<length xs] @ [(t, length xs)]"
  by simp

lemma AddString_pool:
  "set (strings_pool (AddString s e)) = insert s (set (strings_pool e))"
  "distinct (strings_pool e) \<Longrightarrow> distinct (strings_pool (AddString s e))"
  "types (AddString s e) = types e" "type_ids (AddString s e) = type_ids e"
  by (auto simp: AddString_def)

lemma AddType_known:
  "map_of (type_ids e) t \<noteq> None \<Longrightarrow> AddType t e = e"
  by (auto simp: AddType_def map_insert_def)

lemma AddType_new:
  "map_of (type_ids e) t = None \<Longrightarrow>
   AddType t e = AddString (print_type t)
                   (e\<lparr>type_ids := type_ids e @ [(t, length (types e))], types := types e @ [t]\<rparr>)"
  by (auto simp: AddType_def map_insert_def)

lemma AddType_types_ok: "types_ok e \<Longrightarrow> types_ok (AddType t e)"
proof (cases "map_of (type_ids e) t = None")
  case False
  then show "types_ok e \<Longrightarrow> types_ok (AddType t e)" by (simp add: AddType_known)
next
  case True
  assume ok: "types_ok e"
  with True have "t \<notin> set (types e)"
    by (simp add: types_ok_def map_of_zip_upt_None)
  with ok True show "types_ok (AddType t e)"
    by (auto simp: AddType_new types_ok_def AddString_pool list_all_iff)
qed

lemma AddType_types:
  "types_ok e \<Longrightarrow> types (AddType t e) = (if t \<in> set (types e) then types e else types e @ [t])"
  by (cases "map_of (type_ids e) t = None")
     (auto simp: AddType_new AddType_known AddString_pool types_ok_def map_of_zip_upt_None)


lemma types_ok_empty: "types_ok empty_table"
  by (simp add: types_ok_def empty_table_def)










lemma fold_AddType_types_empty:
  "types_ok e \<Longrightarrow> types (fold AddType ts e) = types e @ filter (\<lambda>t. t \<notin> set (types e)) (rev (remdups (rev ts)))"
proof (induction ts arbitrary: e)
  case Nil then show ?case by simp
next
  case (Cons t ts)
  have ok: "types_ok (AddType t e)" using Cons.prems by (rule AddType_types_ok)
  have f: "filter (\<lambda>x. x \<notin> set (types e)) (rev (remdups (rev ts @ [t])))
         = (if t \<in> set (types e) then [] else [t]) @
           filter (\<lambda>x. x \<notin> set (types e) \<and> x \<noteq> t) (rev (remdups (rev ts)))"
  proof -
    have "rev (remdups (rev ts @ [t])) = t # filter (\<lambda>x. x \<noteq> t) (rev (remdups (rev ts)))"
      by (induction ts rule: rev_induct) (auto simp: rev_filter)
    then show ?thesis by (auto simp: conj_commute)
  qed
  show ?case
    using Cons.IH [OF ok] Cons.prems
    by (auto simp: AddType_types f intro: filter_cong)
qed





subsection \<open>Unresolved function references\<close>



lemma frame_refl [simp]: "frame st st"
  by (simp add: frame_def)

lemma frame_trans: "frame a b \<Longrightarrow> frame b c \<Longrightarrow> frame a c"
  by (auto simp: frame_def)

lemma frame_on_table [simp]: "frame st (on_table f st)"
  by (simp add: frame_def on_table_def)

lemma frame_fail_with [simp]: "frame st (fail_with msg st)"
  by (simp add: frame_def fail_with_def emitError_def)

lemma frame_AddLocation [simp]: "frame st (AddLocation op st)"
  by (simp add: frame_def AddLocation_def Let_def split: prod.splits bool.splits)

lemma frame_AddDebugInfo [simp]: "frame st (AddDebugInfo op st)"
  by (simp add: frame_def AddDebugInfo_def Let_def on_table_def
      split: prod.splits bool.splits Location.splits)

lemma frame_AddFunction [simp]: "frame st (fst (AddFunction region name kind st))"
  by (simp add: frame_def AddFunction_def Let_def emitError_def split: sum.splits)

lemma frame_collect_regions [simp]: "frame st (collect_regions regions st)"
proof (induction regions arbitrary: st)
  case Nil then show ?case by simp
next
  case (Cons r rs)
  obtain st1 ok where a: "AddFunction r [] kBEFFunction st = (st1, ok)" by force
  have f: "frame st st1" using frame_AddFunction [of st r "[]" kBEFFunction] a by simp
  show ?case
  proof (cases ok)
    case True
    then show ?thesis using a f Cons [of st1] by (auto intro: frame_trans)
  next
    case False
    then show ?thesis using a f by (auto simp: frame_def)
  qed
qed

lemma frame_collect_attrs [simp]: "frame st (fst (collect_attrs env cn op attrs st))"
proof (induction env cn op attrs st rule: collect_attrs.induct)
  case (1 env cn op st) then show ?case by simp
next
  case (2 env cn op name attr rest st)
  show ?case
    apply (simp only: collect_attrs.simps Let_def)
    apply (intro conjI impI allI | simp only: split: if_splits)+
    using 2 apply (auto simp: frame_def emitError_def on_table_def Let_def)
    done
qed


lemma frame_collect_func [simp]: "frame st (collect_func fn st)"
proof -
  have f: "frame st (fst (AddFunction r n k st))" for r n k by simp
  have g: "frame st (if aborted (fst p) = None then (fst p)\<lparr>cresult := Failure\<rparr> else fst p)"
    if "frame st (fst p)" for p
    using that by (auto simp: frame_def)
  show ?thesis
    unfolding collect_func_def Let_def
    by (auto simp: frame_def fail_with_def emitError_def on_table_def AddFunction_def Let_def
        split: option.splits prod.splits bool.splits sum.splits)
qed

lemma frame_collect_kernel [simp]: "frame st (collect_kernel env cn op st)"
proof -
  obtain st1 r where a: "collect_attrs env cn op (op_attrs op) (on_table (AddKernel op) st) = (st1, r)"
    by force
  have "frame (on_table (AddKernel op) st) st1"
    using frame_collect_attrs [of "on_table (AddKernel op) st" env cn op "op_attrs op"] a by simp
  then have f: "frame st st1" by (auto simp: frame_def on_table_def)
  show ?thesis
    using a f frame_collect_regions [of st1 "op_regions op"]
    by (cases r) (auto simp: collect_kernel_def intro: frame_trans)
qed

lemma frame_collect_op [simp]: "frame st (collect_op env cn m items it st)"
proof -
  have 1: "frame st (AddLocation (item_op it) st)" by simp
  have 2: "frame st (AddDebugInfo (item_op it) (AddLocation (item_op it) st))"
    using 1 frame_AddDebugInfo by (rule frame_trans)
  have 3: "frame st (on_table f (AddDebugInfo (item_op it) (AddLocation (item_op it) st)))" for f
    using 2 frame_on_table by (rule frame_trans)
  show ?thesis
    unfolding collect_op_def Let_def
    using 1 2 3
    by (auto intro: frame_trans [OF 3 frame_fail_with] frame_trans [OF 3 frame_collect_func]
        frame_trans [OF 3 frame_collect_kernel])
qed

lemma collect_op_aborted: "aborted st \<noteq> None \<Longrightarrow> collect_op env cn m items it st = st"
  by (simp add: collect_op_def)

lemma fold_collect_op_aborted:
  "aborted st \<noteq> None \<Longrightarrow> fold (collect_op env cn m items) xs st = st"
  by (induction xs) (simp_all add: collect_op_aborted)

lemma frame_fold_collect_op: "frame st (fold (collect_op env cn m items) xs st)"
proof (induction xs arbitrary: st)
  case Nil then show ?case by simp
next
  case (Cons x xs)
  have "frame st (collect_op env cn m items x st)" by (rule frame_collect_op)
  moreover have "frame (collect_op env cn m items x st)
     (fold (collect_op env cn m items) xs (collect_op env cn m items x st))" by (rule Cons)
  ultimately show ?case unfolding fold_simps by (rule frame_trans)
qed


lemma collect_attrs_records:
  assumes "na \<in> set attrs" "recorded_ref env na"
    and "cresult (fst (collect_attrs env cn op attrs st)) = Success"
  shows "(snd na, op_loc op) \<in> set (fn_attrs (fst (collect_attrs env cn op attrs st)))"
  using assms
proof (induction env cn op attrs st rule: collect_attrs.induct)
  case (1 env cn op st) then show ?case by simp
next
  case (2 env cn op name attr rest st)
  show ?case
  proof (cases "na = (name, attr)")
    case True
    let ?st1 = "st\<lparr>fn_attrs := fn_attrs st @ [(attr, op_loc op)]\<rparr>"
    have sup: "IsSupportedAttribute env attr \<or> cresult st \<noteq> Success"
      using "2.prems"(3) True "2.prems"(2)
      by (auto simp: recorded_ref_def emitError_def split: if_splits)
    have eq: "collect_attrs env cn op ((name, attr) # rest) st = collect_attrs env cn op rest ?st1"
      using True "2.prems"(2) sup by (auto simp: recorded_ref_def)
    have "frame ?st1 (fst (collect_attrs env cn op rest ?st1))" by simp
    then show ?thesis using True eq by (auto simp: frame_def)
  next
    case False
    then have mem: "na \<in> set rest" using "2.prems"(1) by simp
    show ?thesis
      using "2.IH" "2.prems"(2,3) mem
      by (auto simp: Let_def emitError_def split: if_splits)
  qed
qed


lemma collect_op_records:
  assumes "cresult (collect_op env cn m items it st) = Success"
    and "aborted (collect_op env cn m items it st) = None"
    and "op_ptr (item_op it) \<noteq> op_ptr m" "\<not> IsInCompiledModule env (item_op it)"
    and "\<not> IsReturn (item_op it)" "\<not> isa_FuncOp (item_op it)"
    and "na \<in> set (op_attrs (item_op it))" "recorded_ref env na"
  shows "(snd na, op_loc (item_op it)) \<in> set (fn_attrs (collect_op env cn m items it st))"
proof -
  let ?op = "item_op it"
  let ?st3 = "on_table (fold AddType (op_result_types ?op)) (AddDebugInfo ?op (AddLocation ?op st))"
  let ?st4 = "on_table (AddKernel ?op) ?st3"
  have eq: "collect_op env cn m items it st = collect_kernel env cn ?op ?st3"
    using assms(1-6)
    by (auto simp: collect_op_def Let_def fail_with_def emitError_def split: if_splits)
  obtain sta r where a: "collect_attrs env cn ?op (op_attrs ?op) ?st4 = (sta, r)" by force
  have k: "collect_kernel env cn ?op ?st3 = (if r then sta else collect_regions (op_regions ?op) sta)"
    using a by (simp add: collect_kernel_def)
  have fr: "frame sta (collect_kernel env cn ?op ?st3)"
    using k by (cases r) simp_all
  then have "cresult sta = Success"
    using assms(1) eq by (auto simp: frame_def)
  then have "(snd na, op_loc ?op) \<in> set (fn_attrs sta)"
    using collect_attrs_records [OF assms(7,8), of cn ?op ?st4] a by simp
  then show ?thesis using fr eq by (auto simp: frame_def)
qed

lemma fold_collect_op_records:
  assumes "it \<in> set xs"
    and "cresult (fold (collect_op env cn m items) xs st) = Success"
    and "aborted (fold (collect_op env cn m items) xs st) = None"
    and "op_ptr (item_op it) \<noteq> op_ptr m" "\<not> IsInCompiledModule env (item_op it)"
    and "\<not> IsReturn (item_op it)" "\<not> isa_FuncOp (item_op it)"
    and "na \<in> set (op_attrs (item_op it))" "recorded_ref env na"
  shows "(snd na, op_loc (item_op it)) \<in> set (fn_attrs (fold (collect_op env cn m items) xs st))"
  using assms(1-3)
proof (induction xs arbitrary: st)
  case Nil then show ?case by simp
next
  case (Cons x xs)
  let ?st1 = "collect_op env cn m items x st"
  have fr: "frame ?st1 (fold (collect_op env cn m items) xs ?st1)"
    by (rule frame_fold_collect_op)
  show ?case
  proof (cases "it = x")
    case True
    have s: "cresult ?st1 = Success" using fr Cons.prems(2) by (auto simp: frame_def)
    have "aborted ?st1 = None"
    proof (rule ccontr)
      assume "aborted ?st1 \<noteq> None"
      then have "fold (collect_op env cn m items) xs ?st1 = ?st1"
        by (rule fold_collect_op_aborted)
      with Cons.prems(3) \<open>aborted ?st1 \<noteq> None\<close> show False by simp
    qed
    then have "(snd na, op_loc (item_op it)) \<in> set (fn_attrs ?st1)"
      using collect_op_records [of env cn m items it st na] s assms(4-9) True by simp
    then show ?thesis using fr by (auto simp: frame_def)
  next
    case False
    then have "it \<in> set xs" using Cons.prems(1) by simp
    then show ?thesis using Cons.IH [of ?st1] Cons.prems(2,3) by simp
  qed
qed


text \<open>
  C6, as the code has it. Let a kernel operation visited by the first pass (not the
  module, not inside a compiled module, not the return, not a function) carry, under a
  name that is neither \<^verbatim>\<open>_tfrt_cost\<close> nor a special attribute, a symbol reference that
  does not target a compiled module, and let no function of the reference's root name
  be in the function table when the walk ends without any other fatal condition. Then
  the first pass fails, its last diagnostic is \<open>function @<reference> not defined\<close> for
  an unresolved reference it recorded, and the converter returns the empty buffer.
\<close>

theorem Collect_function_not_defined:
  assumes "it \<in> set (module_walk module)"
    and "op_ptr (item_op it) \<noteq> op_ptr module" "\<not> IsInCompiledModule env (item_op it)"
    and "\<not> IsReturn (item_op it)" "\<not> isa_FuncOp (item_op it)"
    and "(name, SymbolRefAttr root nested) \<in> set (op_attrs (item_op it))"
    and "name \<noteq> ''_tfrt_cost''" "ClassifyAttribute name = kUnknown"
    and "\<not> SymbolInCompiledModule env (SymbolRefAttr root nested)"
    and "cresult (collect_walk env module (\<not> disable)) = Success"
    and "aborted (collect_walk env module (\<not> disable)) = None"
    and "GetFunctionNamed (table (collect_walk env module (\<not> disable))) root = - 1"
  shows "\<exists>ref loc. (ref, loc) \<in> set (fn_attrs (collect_walk env module (\<not> disable)))
           \<and> GetFunctionNamed (table (collect_walk env module (\<not> disable))) (getRootReference ref) = - 1
           \<and> diags (Collect env module (\<not> disable)) =
               diags (collect_walk env module (\<not> disable)) @
                 [''function '' @ print_symbol_ref ref @ '' not defined'']
           \<and> cresult (Collect env module (\<not> disable)) = Failure
           \<and> ConvertMLIRToBEF env module disable = Inr []"
proof -
  let ?st = "collect_walk env module (\<not> disable)"
  have rec: "recorded_ref env (name, SymbolRefAttr root nested)"
    using assms(7-9) by (simp add: recorded_ref_def)
  have mem: "(SymbolRefAttr root nested, op_loc (item_op it)) \<in> set (fn_attrs ?st)"
    using fold_collect_op_records [OF assms(1), of env "\<not> disable" module "module_walk module"
        initial_collect_state "(name, SymbolRefAttr root nested)"]
      assms(2-6,10,11) rec
    by (simp add: collect_walk_def)
  have und: "function_undefined (table ?st) (SymbolRefAttr root nested, op_loc (item_op it))"
    using assms(12) by (simp add: function_undefined_def)
  obtain al where f: "find (function_undefined (table ?st)) (fn_attrs ?st) = Some al"
    using mem und by (cases "find (function_undefined (table ?st)) (fn_attrs ?st)")
      (auto simp: find_None_iff)
  then have al: "al \<in> set (fn_attrs ?st)" "function_undefined (table ?st) al"
    by (auto simp: find_Some_iff)
  have c: "Collect env module (\<not> disable) =
      fail_with (''function '' @ print_symbol_ref (fst al) @ '' not defined'') ?st"
    using f assms(10,11) by (simp add: Collect_def Let_def)
  have conv: "ConvertMLIRToBEF env module disable = Inr []"
    using assms(11) by (simp add: ConvertMLIRToBEF_def Let_def c fail_with_def emitError_def)
  show ?thesis
    using al c conv
    by (intro exI [of _ "fst al"] exI [of _ "snd al"])
       (simp add: function_undefined_def fail_with_def emitError_def)
qed


theorem Collect_function_not_defined_witness:
  "cresult (Collect ex_env ex_call_module False) = Failure
   \<and> ConvertMLIRToBEF ex_env ex_call_module True = Inr []"
proof -
  let ?it = "\<lparr>item_op = ex_call, item_parent = Some 64, item_is_back = False\<rparr>"
  have 1: "?it \<in> set (module_walk ex_call_module)" by code_simp
  have 2: "op_ptr (item_op ?it) \<noteq> op_ptr ex_call_module" by code_simp
  have 3: "\<not> IsInCompiledModule ex_env (item_op ?it)" by (simp add: ex_env_def ex_false_def)
  have 4: "\<not> IsReturn (item_op ?it)" by code_simp
  have 5: "\<not> isa_FuncOp (item_op ?it)" by code_simp
  have 6: "(''callee'', SymbolRefAttr ''missing'' []) \<in> set (op_attrs (item_op ?it))"
    by (simp add: ex_call_def)
  have 7: "''callee'' \<noteq> ''_tfrt_cost''" by simp
  have 8: "ClassifyAttribute ''callee'' = kUnknown" by (simp add: ClassifyAttribute_def)
  have 9: "\<not> SymbolInCompiledModule ex_env (SymbolRefAttr ''missing'' [])"
    by (simp add: ex_env_def ex_false_def)
  have 10: "cresult (collect_walk ex_env ex_call_module (\<not> True)) = Success" by code_simp
  have 11: "aborted (collect_walk ex_env ex_call_module (\<not> True)) = None" by code_simp
  have 12: "GetFunctionNamed (table (collect_walk ex_env ex_call_module (\<not> True))) ''missing'' = - 1"
    by code_simp
  show ?thesis
    using Collect_function_not_defined [OF 1 2 3 4 5 6 7 8 9 10 11 12] by auto
qed

text \<open>
  A symbol reference that is an attribute of a function operation is not looked at
  (the converter ignores the attributes of functions): the module compiles although
  the function \<open>missing\<close> it refers to is not in the function table.
\<close>

theorem Collect_ignores_function_attributes:
  "getAttr (Operation 48 ''func'' (FileLineColLoc ''f.mlir'' 1 1) [] []
        [(''sym_name'', StringAttr ''main''), (''type'', TypeAttr (FunctionType [] [])),
         (''callee'', SymbolRefAttr ''missing'' [])]
        [Region 64 48 UnknownLoc [Block [] [ex_return]]]) ''callee''
     = Some (SymbolRefAttr ''missing'' [])
   \<and> GetFunctionNamed (table (Collect ex_env ex_fn_attr_module False)) ''missing'' = - 1
   \<and> cresult (Collect ex_env ex_fn_attr_module False) = Success
   \<and> diags (Collect ex_env ex_fn_attr_module False) = []
   \<and> ConvertMLIRToBEF ex_env ex_fn_attr_module True \<noteq> Inr []"
  by code_simp

subsection \<open>The order of the sections\<close>


lemma emit_sections_append:
  "emit_sections env (a @ b) e = emit_sections env b (emit_sections env a e)"
  by (simp add: emit_sections_def)

lemma emit_sections_one:
  "EmitSectionOf (SectionIdByte env sid) s e = emit_sections env [(sid, s)] e"
  by (simp add: emit_sections_def emit_section_entry_def)

lemma EmitLocationInfo_sections:
  "\<exists>s1 s2. bef_file (EmitLocationInfo env me) =
     emit_sections env [(kLocationFilenames, s1), (kLocationPositions, s2)] (bef_file me)"
  by (auto simp: EmitLocationInfo_def Let_def emit_sections_def emit_section_entry_def)

lemma EmitDebugInfo_sections:
  "\<exists>s. bef_file (EmitDebugInfo env me) = emit_sections env [(kDebugInfo, s)] (bef_file me)"
  by (auto simp: EmitDebugInfo_def Let_def emit_sections_def emit_section_entry_def)

lemma EmitStrings_sections:
  "EmitStrings env me = Inr me' \<Longrightarrow>
   \<exists>s. bef_file me' = emit_sections env [(kStrings, s)] (bef_file me)"
  by (auto simp: EmitStrings_def Let_def emit_sections_def emit_section_entry_def
      split: sum.splits prod.splits)

lemma EmitAttributes_sections:
  "EmitAttributes env at me = Inr (me', at') \<Longrightarrow>
   (\<exists>s. bef_file me' = emit_sections env [(kAttributes, s)] (bef_file me))
   \<and> (at' = None \<longleftrightarrow> at = None)"
  by (auto simp: EmitAttributes_def Let_def emit_sections_def emit_section_entry_def
      split: sum.splits prod.splits)

lemma EmitKernels_sections:
  "EmitKernels env me = Inr me' \<Longrightarrow>
   \<exists>s. bef_file me' = emit_sections env [(kKernels, s)] (bef_file me)"
  by (auto simp: EmitKernels_def Let_def emit_sections_def emit_section_entry_def
      split: sum.splits prod.splits)

lemma EmitTypes_sections:
  "EmitTypes env me = Inr me' \<Longrightarrow>
   \<exists>s. bef_file me' = emit_sections env [(kTypes, s)] (bef_file me)"
  by (auto simp: EmitTypes_def Let_def emit_sections_def emit_section_entry_def
      split: sum.splits prod.splits)

text \<open>An optional emitter stays present (or absent) through the function emitter.\<close>

lemma foldM_invariant:
  assumes "\<And>x s s'. f x s = Inr s' \<Longrightarrow> P s \<Longrightarrow> P s'"
  shows "foldM f xs s = Inr s' \<Longrightarrow> P s \<Longrightarrow> P s'"
proof (induction xs arbitrary: s)
  case Nil then show ?case by simp
next
  case (Cons x xs)
  then show ?case using assms by (auto split: sum.splits)
qed

lemma emit_function_ref_names:
  "emit_function_ref fe fn ka = Inr ka' \<Longrightarrow>
   (attribute_names_emitter ka' = None) = (attribute_names_emitter ka = None)"
  by (auto simp: emit_function_ref_def split: if_splits)

lemma emit_kernel_attr_names:
  assumes "emit_kernel_attr fe na ka = Inr ka'"
  shows "(attribute_names_emitter ka' = None) = (attribute_names_emitter ka = None)"
proof -
  have fr: "foldM (emit_function_ref fe) xs ka = Inr ka' \<Longrightarrow>
     (attribute_names_emitter ka' = None) = (attribute_names_emitter ka = None)" for xs
    by (induction xs arbitrary: ka) (auto split: sum.splits dest: emit_function_ref_names)
  show ?thesis
    using assms fr
    by (auto simp: emit_kernel_attr_def Let_def
        split: if_splits sum.splits option.splits dest: emit_function_ref_names)
qed

lemma EmitKernel_names:
  assumes "EmitKernel fe op kl an = Inr (kl', an')"
  shows "(an' = None) = (an = None)"
proof -
  have fr: "foldM (emit_kernel_attr fe) xs ka = Inr ka' \<Longrightarrow>
     (attribute_names_emitter ka' = None) = (attribute_names_emitter ka = None)" for xs ka ka'
    by (induction xs arbitrary: ka) (auto split: sum.splits dest: emit_kernel_attr_names)
  show ?thesis
    using assms
    by (auto simp: EmitKernel_def Let_def split: sum.splits prod.splits if_splits dest!: fr)
qed


lemma emit_kernel_entry_names:
  "emit_kernel_entry env fe block op fb = Inr fb' \<Longrightarrow>
   (fb_attribute_names fb' = None) = (fb_attribute_names fb = None)"
  by (auto simp: emit_kernel_entry_def Let_def split: if_splits sum.splits prod.splits
      dest: EmitKernel_names)

lemma EmitRegisterTable_types:
  "EmitRegisterTable fe rptr block rt em = Inr (fe', rt', em') \<Longrightarrow> (rt' = None) = (rt = None)"
  by (auto simp: EmitRegisterTable_def split: sum.splits)

lemma EmitFunction_optional:
  assumes "EmitFunction env fe region an rt em = Inr (em', an', rt')"
  shows "(an' = None) = (an = None) \<and> (rt' = None) = (rt = None)"
proof -
  have fr: "foldM (emit_kernel_entry env fe1 block) xs fb = Inr fb' \<Longrightarrow>
     (fb_attribute_names fb' = None) = (fb_attribute_names fb = None)" for xs fb fb' fe1 block
    by (induction xs arbitrary: fb) (auto split: sum.splits dest: emit_kernel_entry_names)
  show ?thesis
    using assms
    by (auto simp: EmitFunction_def Let_def split: sum.splits prod.splits if_splits
        dest!: fr EmitRegisterTable_types)
qed

lemma emit_function_entry_optional:
  assumes "emit_function_entry env me f fs = Inr fs'"
  shows "(fs_attribute_names fs' = None) = (fs_attribute_names fs = None)
       \<and> (fs_register_types fs' = None) = (fs_register_types fs = None)"
  using assms
  by (auto simp: emit_function_entry_def split: sum.splits prod.splits if_splits option.splits
      dest!: EmitFunction_optional)

lemma EmitFunctions_sections:
  assumes "EmitFunctions env an rt me = Inr (me', an', rt')"
  shows "(\<exists>s1 s2. bef_file me' =
            emit_sections env [(kFunctionIndex, s1), (kFunctions, s2)] (bef_file me))
       \<and> (an' = None) = (an = None) \<and> (rt' = None) = (rt = None)"
proof -
  have fr: "foldM (emit_function_entry env me) xs fs = Inr fs' \<Longrightarrow>
     (fs_attribute_names fs' = None) = (fs_attribute_names fs = None)
     \<and> (fs_register_types fs' = None) = (fs_register_types fs = None)" for xs fs fs'
    by (induction xs arbitrary: fs) (auto split: sum.splits dest!: emit_function_entry_optional)
  from assms obtain fs fis where
    f1: "foldM (emit_function_entry env me) (functions_vec (entities me))
           \<lparr>fs_index = entity_index me, fs_section = new_emitter,
            fs_attribute_names = map_option (EmitVbrInt (length (functions_vec (entities me)))) an,
            fs_register_types = map_option (EmitVbrInt (length (functions_vec (entities me)))) rt\<rparr>
         = Inr fs"
    and r: "me' = me\<lparr>entity_index := fs_index fs,
                     bef_file := EmitSectionOf (SectionIdByte env kFunctions) (fs_section fs)
                       (EmitSectionOf (SectionIdByte env kFunctionIndex) fis (bef_file me))\<rparr>"
           "an' = fs_attribute_names fs" "rt' = fs_register_types fs"
    by (auto simp: EmitFunctions_def Let_def split: sum.splits)
  have "bef_file me' = emit_sections env [(kFunctionIndex, fis), (kFunctions, fs_section fs)] (bef_file me)"
    using r(1) by (simp add: emit_sections_def emit_section_entry_def)
  then show ?thesis using fr [OF f1] r(2,3) by auto
qed


text \<open>
  C2, as the code has it. On successful compilation the file is the magic bytes
  followed by the sections location-filenames, location-positions, debug-info, strings,
  attributes, kernels, types, function-index, functions, in this order; when the
  optional sections are enabled the sections attribute-types, attribute-names and
  register-types follow the functions section.
\<close>

theorem ConvertMLIRToBEF_section_order:
  assumes "ConvertMLIRToBEF env module disable = Inr bytes"
    and "cresult (Collect env module (\<not> disable)) = Success"
  shows "\<exists>secs. bytes = result_bytes (emit_sections env secs (EmitBytes bef_magic new_emitter))
           \<and> map fst secs =
               [kLocationFilenames, kLocationPositions, kDebugInfo, kStrings, kAttributes,
                kKernels, kTypes, kFunctionIndex, kFunctions]
               @ (if disable then [] else [kAttributeTypes, kAttributeNames, kRegisterTypes])"
proof -
  let ?st = "Collect env module (\<not> disable)"
  let ?me0 = "\<lparr>bef_file = EmitBytes bef_magic new_emitter, module_op = module,
               entities = table ?st, entity_index = empty_index\<rparr>"
  let ?me1 = "EmitLocationInfo env ?me0"
  let ?me2 = "EmitDebugInfo env ?me1"
  let ?at = "if disable then None else Some new_emitter"
  from assms obtain me3 me4 at4 me5 me6 where
    s3: "EmitStrings env ?me2 = Inr me3" and
    s4: "EmitAttributes env ?at me3 = Inr (me4, at4)" and
    s5: "EmitKernels env me4 = Inr me5" and
    s6: "EmitTypes env me5 = Inr me6"
    by (auto simp: ConvertMLIRToBEF_def Let_def split: option.splits sum.splits if_splits)
  obtain a1 a2 where e1: "bef_file ?me1 =
      emit_sections env [(kLocationFilenames, a1), (kLocationPositions, a2)] (bef_file ?me0)"
    using EmitLocationInfo_sections by blast
  obtain a3 where e2: "bef_file ?me2 = emit_sections env [(kDebugInfo, a3)] (bef_file ?me1)"
    using EmitDebugInfo_sections by blast
  obtain a4 where e3: "bef_file me3 = emit_sections env [(kStrings, a4)] (bef_file ?me2)"
    using EmitStrings_sections [OF s3] by blast
  obtain a5 where e4: "bef_file me4 = emit_sections env [(kAttributes, a5)] (bef_file me3)"
    and n4: "(at4 = None) = (?at = None)"
    using EmitAttributes_sections [OF s4] by (elim conjE exE) (rule that)
  obtain a6 where e5: "bef_file me5 = emit_sections env [(kKernels, a6)] (bef_file me4)"
    using EmitKernels_sections [OF s5] by blast
  obtain a7 where e6: "bef_file me6 = emit_sections env [(kTypes, a7)] (bef_file me5)"
    using EmitTypes_sections [OF s6] by blast
  let ?pre = "[(kLocationFilenames, a1), (kLocationPositions, a2), (kDebugInfo, a3),
              (kStrings, a4), (kAttributes, a5), (kKernels, a6), (kTypes, a7)]"
  have pre: "bef_file me6 = emit_sections env ?pre (EmitBytes bef_magic new_emitter)"
    using e1 e2 e3 e4 e5 e6 by (simp add: emit_sections_def)
  show ?thesis
  proof (cases disable)
    case True
    from assms s3 s4 s5 s6 True obtain me7 an7 rt7 where
      s7: "EmitFunctions env None None me6 = Inr (me7, an7, rt7)"
      and b: "bytes = result_bytes (bef_file me7)"
      by (auto simp: ConvertMLIRToBEF_def Let_def split: option.splits sum.splits if_splits)
    obtain a8 a9 where e7: "bef_file me7 =
        emit_sections env [(kFunctionIndex, a8), (kFunctions, a9)] (bef_file me6)"
      using EmitFunctions_sections [OF s7] by blast
    have "bytes = result_bytes (emit_sections env (?pre @ [(kFunctionIndex, a8), (kFunctions, a9)])
                     (EmitBytes bef_magic new_emitter))"
      using b e7 pre by (simp only: emit_sections_append)
    then show ?thesis using True by (intro exI [of _ "?pre @ [(kFunctionIndex, a8), (kFunctions, a9)]"]) simp
  next
    case False
    from assms s3 s4 s5 s6 False obtain me7 an7 rt7 where
      s7: "EmitFunctions env (Some new_emitter) (Some new_emitter) me6 = Inr (me7, an7, rt7)"
      and b: "bytes = result_bytes
               (emit_optional_section (SectionIdByte env kRegisterTypes) rt7
                 (emit_optional_section (SectionIdByte env kAttributeNames) an7
                   (emit_optional_section (SectionIdByte env kAttributeTypes) at4
                     (bef_file me7))))"
      by (auto simp: ConvertMLIRToBEF_def Let_def split: option.splits sum.splits if_splits)
    obtain a8 a9 where e7: "bef_file me7 =
        emit_sections env [(kFunctionIndex, a8), (kFunctions, a9)] (bef_file me6)"
      and n7: "an7 \<noteq> None" "rt7 \<noteq> None"
      using EmitFunctions_sections [OF s7] by auto
    from n4 False have n4': "at4 \<noteq> None" by simp
    from n4' n7 obtain b1 b2 b3 where o: "at4 = Some b1" "an7 = Some b2" "rt7 = Some b3" by auto
    let ?all = "?pre @ [(kFunctionIndex, a8), (kFunctions, a9)]
                @ [(kAttributeTypes, b1), (kAttributeNames, b2), (kRegisterTypes, b3)]"
    have "bytes = result_bytes (emit_sections env ?all (EmitBytes bef_magic new_emitter))"
      using b e7 pre o
      by (simp add: emit_optional_section_def emit_sections_def emit_section_entry_def)
    then show ?thesis using False by (intro exI [of _ ?all]) simp
  qed
qed


theorem ConvertMLIRToBEF_section_order_witness:
  "\<exists>bytes secs. ConvertMLIRToBEF ex_env ex_fn_attr_module False = Inr bytes
     \<and> bytes = result_bytes (emit_sections ex_env secs (EmitBytes bef_magic new_emitter))
     \<and> map fst secs =
         [kLocationFilenames, kLocationPositions, kDebugInfo, kStrings, kAttributes,
          kKernels, kTypes, kFunctionIndex, kFunctions,
          kAttributeTypes, kAttributeNames, kRegisterTypes]"
proof -
  have "\<not> isl (ConvertMLIRToBEF ex_env ex_fn_attr_module False)" by code_simp
  then obtain bytes where b: "ConvertMLIRToBEF ex_env ex_fn_attr_module False = Inr bytes"
    by (cases "ConvertMLIRToBEF ex_env ex_fn_attr_module False") auto
  have c: "cresult (Collect ex_env ex_fn_attr_module (\<not> False)) = Success" by code_simp
  show ?thesis
    using ConvertMLIRToBEF_section_order [OF b c] b by auto
qed

text \<open>
  With the optional sections enabled, the section written after the attributes section
  (number 4 in the example environment) is the kernels section (5), not the
  attribute-types section (9), which comes after the functions section (8).
\<close>

theorem ConvertMLIRToBEF_attribute_types_last:
  "file_section_ids (ConvertMLIRToBEF ex_env ex_fn_attr_module False)
     = Some [1, 2, 12, 3, 4, 5, 6, 7, 8, 9, 10, 11]"
  by code_simp

end
